theory Spec2Isabelle
  imports Complex_Main "HOL-Library.Multiset"
begin

section \<open>Data model (app/models.py)\<close>

text \<open>
  Python \<open>str\<close> and \<open>bytes\<close> are character lists. A \<open>datetime\<close> is an integer
  count of microseconds, a \<open>Decimal\<close> is a rational number, and a JSON column is a value
  of the datatype \<open>json\<close>.
\<close>

type_synonym bytes = "char list"
type_synonym datetime = int
type_synonym decimal = rat

datatype json =
    JString string
  | JNumber rat
  | JBool bool
  | JArray "json list"
  | JObject "(string \<times> json) list"

datatype LayerType =
    RICE_FIELDS | IRRIGATION | REGENCY_ROADS | REGENCY_BOUNDARIES | VILLAGE_BOUNDARIES
  | USER_UPLOADED

fun layer_type_value :: "LayerType \<Rightarrow> string" where
  "layer_type_value RICE_FIELDS = ''rice_fields''"
| "layer_type_value IRRIGATION = ''irrigation''"
| "layer_type_value REGENCY_ROADS = ''regency_roads''"
| "layer_type_value REGENCY_BOUNDARIES = ''regency_boundaries''"
| "layer_type_value VILLAGE_BOUNDARIES = ''village_boundaries''"
| "layer_type_value USER_UPLOADED = ''user_uploaded''"

datatype FileType = KML | KMZ | SHP

datatype ComplaintStatus = SUBMITTED | REDIRECTED | COMPLETED

record StaticLayer =
  sl_id :: int
  sl_name :: string
  sl_layer_type :: LayerType
  sl_description :: string
  sl_source :: string
  sl_geom_data :: json
  sl_style_properties :: json
  sl_is_active :: bool
  sl_display_order :: int
  sl_created_at :: datetime
  sl_updated_at :: datetime

record UserLayer =
  ul_id :: int
  ul_name :: string
  ul_description :: string
  ul_file_type :: FileType
  ul_original_filename :: string
  ul_file_path :: string
  ul_file_size :: int
  ul_geom_data :: json
  ul_style_properties :: json
  ul_is_public :: bool
  ul_is_active :: bool
  ul_upload_ip :: "string option"
  ul_created_at :: datetime

record Complaint =
  c_id :: int
  c_title :: string
  c_description :: string
  c_latitude :: decimal
  c_longitude :: decimal
  c_location_description :: string
  c_submitter_name :: "string option"
  c_submitter_email :: "string option"
  c_submitter_phone :: "string option"
  c_status :: ComplaintStatus
  c_submit_ip :: "string option"
  c_facebook_redirected :: bool
  c_lapor_redirected :: bool
  c_created_at :: datetime

record ComplaintPhoto =
  p_id :: int
  p_complaint_id :: int
  p_filename :: string
  p_file_path :: string
  p_file_size :: int
  p_mime_type :: string
  p_caption :: string
  p_display_order :: int
  p_created_at :: datetime

record ComplaintCreate =
  cc_title :: string
  cc_description :: string
  cc_latitude :: decimal
  cc_longitude :: decimal
  cc_location_description :: string
  cc_submitter_name :: "string option"
  cc_submitter_email :: "string option"
  cc_submitter_phone :: "string option"

record ComplaintPhotoResponse =
  pr_id :: int
  pr_filename :: string
  pr_file_path :: string
  pr_mime_type :: string
  pr_caption :: string
  pr_display_order :: int

record ComplaintResponse =
  cr_id :: int
  cr_title :: string
  cr_description :: string
  cr_latitude :: decimal
  cr_longitude :: decimal
  cr_location_description :: string
  cr_submitter_name :: "string option"
  cr_status :: ComplaintStatus
  cr_created_at :: string
  cr_photos :: "ComplaintPhotoResponse list"

record LayerResponse =
  lr_id :: int
  lr_name :: string
  lr_description :: string
  lr_layer_type :: string
  lr_is_active :: bool
  lr_geom_data :: json
  lr_style_properties :: json
  lr_created_at :: string

section \<open>The store\<close>

text \<open>
  The database session and the upload directories are the service's collaborators. They
  are modelled as one state value: the four tables in insertion order, the files written
  so far (path to content) and the lines given to \<open>logging.error\<close>. \<open>session.add\<close>
  followed by \<open>commit\<close> and \<open>refresh\<close> appends the row with the next primary key.
  Where a claim is about an operation being accepted or refused, the exceptions the
  collaborators may raise are part of the operation's model (see
  \<open>add_photo_to_complaint\<close>).
\<close>

record app_state =
  static_layers :: "StaticLayer list"
  user_layers :: "UserLayer list"
  complaints :: "Complaint list"
  complaint_photos :: "ComplaintPhoto list"
  files :: "string \<rightharpoonup> bytes"
  log :: "string list"

definition empty_state :: app_state where
  "empty_state =
     \<lparr>static_layers = [], user_layers = [], complaints = [], complaint_photos = [],
      files = Map.empty, log = []\<rparr>"

definition next_id :: "int list \<Rightarrow> int" where
  "next_id ids = foldr max ids 0 + 1"

definition logging_error :: "string \<Rightarrow> app_state \<Rightarrow> app_state" where
  "logging_error msg st = st\<lparr>log := log st @ [msg]\<rparr>"

section \<open>Python built-ins used by the services\<close>

text \<open>\<open>str.lower\<close> on the ASCII letters; other characters are left as they are.\<close>

definition lower_char :: "char \<Rightarrow> char" where
  "lower_char c =
     (case map_of (zip ''ABCDEFGHIJKLMNOPQRSTUVWXYZ'' ''abcdefghijklmnopqrstuvwxyz'') c of
        None \<Rightarrow> c
      | Some l \<Rightarrow> l)"

definition lower :: "string \<Rightarrow> string" where
  "lower s = map lower_char s"

text \<open>\<open>str(n)\<close> of an integer: its decimal digits, with a sign when negative.\<close>

definition digit_char :: "nat \<Rightarrow> char" where
  "digit_char d = ''0123456789'' ! d"

function str_nat :: "nat \<Rightarrow> string" where
  "str_nat n =
     (if n < 10 then [digit_char n] else str_nat (n div 10) @ [digit_char (n mod 10)])"
  by pat_completeness auto
termination
  by (relation "measure id") auto

declare str_nat.simps [simp del]

definition str_int :: "int \<Rightarrow> string" where
  "str_int i = (if i < 0 then CHR ''-'' # str_nat (nat (- i)) else str_nat (nat i))"

text \<open>\<open>s.split(c)\<close> for a one-character separator, and \<open>s.endswith(t)\<close>.\<close>

fun split_on :: "char \<Rightarrow> string \<Rightarrow> string list" where
  "split_on c [] = [[]]"
| "split_on c (x # xs) =
     (if x = c then [] # split_on c xs
      else (case split_on c xs of
              [] \<Rightarrow> [[x]]
            | w # ws \<Rightarrow> (x # w) # ws))"

definition endswith :: "string \<Rightarrow> string \<Rightarrow> bool" where
  "endswith s t = (length t \<le> length s \<and> drop (length s - length t) s = t)"

text \<open>
  \<open>str(Path(d) / name)\<close> for a relative directory \<open>d\<close> and a name that does not start
  with a slash: the segments of both, without the empty ones and the single dots, joined
  by slashes.
\<close>

fun join_segments :: "string list \<Rightarrow> string" where
  "join_segments [] = []"
| "join_segments [p] = p"
| "join_segments (p # q # ps) = p @ ''/'' @ join_segments (q # ps)"

definition path_join :: "string \<Rightarrow> string \<Rightarrow> string" where
  "path_join d name =
     join_segments (filter (\<lambda>p. p \<noteq> [] \<and> p \<noteq> ''.'') (split_on CHR ''/'' (d @ ''/'' @ name)))"

section \<open>Complaint service (app/complaint\_service.py)\<close>

definition UPLOAD_DIR :: string where
  "UPLOAD_DIR = ''uploads/complaint_photos''"

definition ALLOWED_PHOTO_TYPES :: "string set" where
  "ALLOWED_PHOTO_TYPES = {''image/jpeg'', ''image/png'', ''image/gif'', ''image/webp''}"

definition MAX_PHOTO_SIZE :: nat where
  "MAX_PHOTO_SIZE = 5 * 1024 * 1024"

text \<open>
  \<open>create_complaint\<close>: \<open>now\<close> is the value \<open>datetime.utcnow\<close> gives the new row.
\<close>

definition create_complaint ::
  "datetime \<Rightarrow> app_state \<Rightarrow> ComplaintCreate \<Rightarrow> string option \<Rightarrow> Complaint option \<times> app_state"
where
  "create_complaint now st complaint_data submit_ip =
     (let complaint =
        \<lparr>c_id = next_id (map c_id (complaints st)),
         c_title = cc_title complaint_data,
         c_description = cc_description complaint_data,
         c_latitude = cc_latitude complaint_data,
         c_longitude = cc_longitude complaint_data,
         c_location_description = cc_location_description complaint_data,
         c_submitter_name = cc_submitter_name complaint_data,
         c_submitter_email = cc_submitter_email complaint_data,
         c_submitter_phone = cc_submitter_phone complaint_data,
         c_status = SUBMITTED,
         c_submit_ip = submit_ip,
         c_facebook_redirected = False,
         c_lapor_redirected = False,
         c_created_at = now\<rparr>
      in (Some complaint, st\<lparr>complaints := complaints st @ [complaint]\<rparr>))"

text \<open>
  \<open>add_photo_to_complaint\<close>. Everything inside the \<open>try\<close> that raises ends in the
  handler, which logs the exception's message and returns \<open>None\<close>: the two
  \<open>raise ValueError\<close> of the validation, and what the collaborators raise.
  \<open>open_error path\<close> is the message of the exception, if any, that creating the upload
  directory and opening \<open>path\<close> for writing raise (no file is written then);
  \<open>commit_error st photo\<close> is the message of the exception, if any, that committing the
  new row raises in the store \<open>st\<close> (the row is not stored then, the file stays). Both
  are parameters, as the file system and the database engine are not part of the sources.
  \<open>hash\<close> is Python's string hash (it differs from process to process, so it is a
  parameter).
\<close>

definition photo_file_path :: "(string \<Rightarrow> int) \<Rightarrow> int \<Rightarrow> bytes \<Rightarrow> string \<Rightarrow> string" where
  "photo_file_path hash complaint_id file_content filename =
     (let file_extension =
            (if CHR ''.'' \<in> set filename then last (split_on CHR ''.'' filename) else ''jpg'');
          safe_filename =
            ''complaint_'' @ str_int complaint_id @ ''_''
              @ str_int (hash (filename @ str_nat (length file_content)))
              @ ''.'' @ file_extension
      in path_join UPLOAD_DIR safe_filename)"

definition new_photo ::
  "datetime \<Rightarrow> app_state \<Rightarrow> int \<Rightarrow> bytes \<Rightarrow> string \<Rightarrow> string \<Rightarrow> string \<Rightarrow> string \<Rightarrow> int
     \<Rightarrow> ComplaintPhoto"
where
  "new_photo now st complaint_id file_content filename file_path mime_type caption display_order =
     \<lparr>p_id = next_id (map p_id (complaint_photos st)),
      p_complaint_id = complaint_id,
      p_filename = filename,
      p_file_path = file_path,
      p_file_size = int (length file_content),
      p_mime_type = mime_type,
      p_caption = caption,
      p_display_order = display_order,
      p_created_at = now\<rparr>"

definition add_photo_to_complaint ::
  "(string \<Rightarrow> int) \<Rightarrow> datetime \<Rightarrow> (string \<Rightarrow> string option)
     \<Rightarrow> (app_state \<Rightarrow> ComplaintPhoto \<Rightarrow> string option) \<Rightarrow> app_state \<Rightarrow> int \<Rightarrow> bytes \<Rightarrow> string
     \<Rightarrow> string \<Rightarrow> string \<Rightarrow> int \<Rightarrow> ComplaintPhoto option \<times> app_state"
where
  "add_photo_to_complaint hash now open_error commit_error st complaint_id file_content filename
       mime_type caption display_order =
     (if mime_type \<notin> ALLOWED_PHOTO_TYPES then
        (None,
         logging_error
           (''Error adding photo to complaint: '' @ ''Unsupported file type: '' @ mime_type) st)
      else if length file_content > MAX_PHOTO_SIZE then
        (None,
         logging_error
           (''Error adding photo to complaint: '' @ ''File size exceeds maximum limit (5MB)'') st)
      else
        (let file_path = photo_file_path hash complaint_id file_content filename
         in case open_error file_path of
              Some msg \<Rightarrow> (None, logging_error (''Error adding photo to complaint: '' @ msg) st)
            | None \<Rightarrow>
                (let st1 = st\<lparr>files := (files st)(file_path \<mapsto> file_content)\<rparr>;
                     photo = new_photo now st1 complaint_id file_content filename file_path
                               mime_type caption display_order
                 in case commit_error st1 photo of
                      Some msg \<Rightarrow>
                        (None, logging_error (''Error adding photo to complaint: '' @ msg) st1)
                    | None \<Rightarrow>
                        (Some photo,
                         st1\<lparr>complaint_photos := complaint_photos st1 @ [photo]\<rparr>))))"

text \<open>
  Two collaborators to run the function with. In \<open>flat_directory d\<close> the directory
  \<open>d\<close> exists and holds no directory: a file right inside it can be opened, any other
  path has no parent directory (\<open>FileNotFoundError\<close>). \<open>foreign_key_enforced\<close> is a
  database that checks the foreign key declared on \<open>ComplaintPhoto.complaint_id\<close> and
  refuses the row of a complaint it does not hold; the text of its message is abridged.
\<close>

definition flat_directory :: "string \<Rightarrow> string \<Rightarrow> string option" where
  "flat_directory d path =
     (if take (length d + 1) path = d @ ''/'' \<and> drop (length d + 1) path \<noteq> []
         \<and> CHR ''/'' \<notin> set (drop (length d + 1) path)
      then None
      else Some (''[Errno 2] No such file or directory: '' @ [CHR 0x27] @ path @ [CHR 0x27]))"

definition foreign_key_enforced :: "app_state \<Rightarrow> ComplaintPhoto \<Rightarrow> string option" where
  "foreign_key_enforced st photo =
     (if p_complaint_id photo \<in> set (map c_id (complaints st)) then None
      else Some ''IntegrityError: violates foreign key constraint on complaint_id'')"

text \<open>
  \<open>mark_redirected\<close>: \<open>session.get\<close> finds the row by primary key, the row is changed
  in place and committed.
\<close>

fun update_complaint :: "Complaint \<Rightarrow> Complaint list \<Rightarrow> Complaint list" where
  "update_complaint c' [] = []"
| "update_complaint c' (c # cs) =
     (if c_id c = c_id c' then c' # cs else c # update_complaint c' cs)"

definition redirect_complaint :: "string \<Rightarrow> Complaint \<Rightarrow> Complaint" where
  "redirect_complaint platform complaint =
     (let c1 =
        (if lower platform = ''facebook'' then complaint\<lparr>c_facebook_redirected := True\<rparr>
         else if lower platform = ''lapor'' then complaint\<lparr>c_lapor_redirected := True\<rparr>
         else complaint)
      in if c_facebook_redirected c1 \<and> c_lapor_redirected c1
         then c1\<lparr>c_status := COMPLETED\<rparr>
         else c1\<lparr>c_status := REDIRECTED\<rparr>)"

definition mark_redirected :: "app_state \<Rightarrow> int \<Rightarrow> string \<Rightarrow> bool \<times> app_state" where
  "mark_redirected st complaint_id platform =
     (case find (\<lambda>c. c_id c = complaint_id) (complaints st) of
        None \<Rightarrow> (False, st)
      | Some complaint \<Rightarrow>
          (True,
           st\<lparr>complaints :=
                update_complaint (redirect_complaint platform complaint) (complaints st)\<rparr>))"

text \<open>
  \<open>get_complaints_in_area\<close>. The four bounds arrive as floats and are compared as
  \<open>Decimal(str(x))\<close>: the conversion is the parameter \<open>dec\<close>, and \<open>isoformat\<close> is
  \<open>datetime.isoformat\<close>. \<open>ORDER BY\<close> is a stable sort on the key; the theorems below do
  not depend on how ties are broken. A stored row has its primary key, so
  \<open>complaint.id or 0\<close> is the key itself.
\<close>

definition photo_response :: "ComplaintPhoto \<Rightarrow> ComplaintPhotoResponse" where
  "photo_response photo =
     \<lparr>pr_id = p_id photo,
      pr_filename = p_filename photo,
      pr_file_path = p_file_path photo,
      pr_mime_type = p_mime_type photo,
      pr_caption = p_caption photo,
      pr_display_order = p_display_order photo\<rparr>"

definition photos_of :: "app_state \<Rightarrow> int \<Rightarrow> ComplaintPhotoResponse list" where
  "photos_of st complaint_id =
     map photo_response
       (sort_key p_display_order
          (filter (\<lambda>p. p_complaint_id p = complaint_id) (complaint_photos st)))"

definition complaint_response ::
  "(datetime \<Rightarrow> string) \<Rightarrow> app_state \<Rightarrow> Complaint \<Rightarrow> ComplaintResponse" where
  "complaint_response isoformat st complaint =
     \<lparr>cr_id = c_id complaint,
      cr_title = c_title complaint,
      cr_description = c_description complaint,
      cr_latitude = c_latitude complaint,
      cr_longitude = c_longitude complaint,
      cr_location_description = c_location_description complaint,
      cr_submitter_name = c_submitter_name complaint,
      cr_status = c_status complaint,
      cr_created_at = isoformat (c_created_at complaint),
      cr_photos = photos_of st (c_id complaint)\<rparr>"

definition in_area :: "decimal \<Rightarrow> decimal \<Rightarrow> decimal \<Rightarrow> decimal \<Rightarrow> Complaint \<Rightarrow> bool" where
  "in_area south west north east c =
     (c_latitude c \<ge> south \<and> c_latitude c \<le> north \<and> c_longitude c \<ge> west
        \<and> c_longitude c \<le> east)"

definition select_complaints_in_area ::
  "decimal \<Rightarrow> decimal \<Rightarrow> decimal \<Rightarrow> decimal \<Rightarrow> app_state \<Rightarrow> Complaint list" where
  "select_complaints_in_area south west north east st =
     sort_key (\<lambda>c. - c_created_at c) (filter (in_area south west north east) (complaints st))"

definition get_complaints_in_area ::
  "('f \<Rightarrow> decimal) \<Rightarrow> (datetime \<Rightarrow> string) \<Rightarrow> app_state \<Rightarrow> 'f \<Rightarrow> 'f \<Rightarrow> 'f \<Rightarrow> 'f
     \<Rightarrow> ComplaintResponse list"
where
  "get_complaints_in_area dec isoformat st south west north east =
     map (complaint_response isoformat st)
       (select_complaints_in_area (dec south) (dec west) (dec north) (dec east) st)"

section \<open>Geospatial service (app/geo\_service.py)\<close>

definition static_layer_response :: "(datetime \<Rightarrow> string) \<Rightarrow> StaticLayer \<Rightarrow> LayerResponse" where
  "static_layer_response isoformat layer =
     \<lparr>lr_id = sl_id layer,
      lr_name = sl_name layer,
      lr_description = sl_description layer,
      lr_layer_type = layer_type_value (sl_layer_type layer),
      lr_is_active = sl_is_active layer,
      lr_geom_data = sl_geom_data layer,
      lr_style_properties = sl_style_properties layer,
      lr_created_at = isoformat (sl_created_at layer)\<rparr>"

definition user_layer_response :: "(datetime \<Rightarrow> string) \<Rightarrow> UserLayer \<Rightarrow> LayerResponse" where
  "user_layer_response isoformat layer =
     \<lparr>lr_id = ul_id layer,
      lr_name = ul_name layer,
      lr_description = ul_description layer,
      lr_layer_type = ''user_uploaded'',
      lr_is_active = ul_is_active layer,
      lr_geom_data = ul_geom_data layer,
      lr_style_properties = ul_style_properties layer,
      lr_created_at = isoformat (ul_created_at layer)\<rparr>"

definition select_static_layers :: "app_state \<Rightarrow> StaticLayer list" where
  "select_static_layers st = sort_key sl_display_order (filter sl_is_active (static_layers st))"

definition select_user_layers :: "app_state \<Rightarrow> UserLayer list" where
  "select_user_layers st =
     sort_key (\<lambda>l. - ul_created_at l)
       (filter (\<lambda>l. ul_is_active l \<and> ul_is_public l) (user_layers st))"

definition get_all_active_layers :: "(datetime \<Rightarrow> string) \<Rightarrow> app_state \<Rightarrow> LayerResponse list" where
  "get_all_active_layers isoformat st =
     map (static_layer_response isoformat) (select_static_layers st)
       @ map (user_layer_response isoformat) (select_user_layers st)"

text \<open>
  The file processors return a feature collection or raise \<open>ValueError\<close>: the result is
  a sum whose left side carries the exception's message.
\<close>

definition process_kml_file :: "bytes \<Rightarrow> string \<Rightarrow> string + json" where
  "process_kml_file file_content filename =
     Inr (JObject
       [(''type'', JString ''FeatureCollection''),
        (''features'', JArray []),
        (''metadata'',
           JObject [(''source_file'', JString filename), (''processed'', JBool True),
                    (''format'', JString ''kml'')])])"

text \<open>
  \<open>zipfile.ZipFile\<close> belongs to the standard library. \<open>unzip\<close> stands for opening the
  archive: it gives the message of the exception raised for bytes that are no archive, or
  the entries in archive order, each a name with its content. \<open>namelist\<close> lists the
  names in that order, and \<open>read\<close> of a name gives the content of the last entry under
  that name. The message of the \<open>KeyError\<close> for a name that is not in the archive is
  abridged: \<open>process_kmz_file\<close> reads only a name taken from the archive's own list.
\<close>

type_synonym zip_archive = "(string \<times> bytes) list"

definition namelist :: "zip_archive \<Rightarrow> string list" where
  "namelist kmz = map fst kmz"

definition zip_read :: "zip_archive \<Rightarrow> string \<Rightarrow> string + bytes" where
  "zip_read kmz name =
     (case filter (\<lambda>e. fst e = name) kmz of
        [] \<Rightarrow> Inl (''There is no item named '' @ name @ '' in the archive'')
      | e # es \<Rightarrow> Inr (snd (last (e # es))))"

definition kmz_error :: "string \<Rightarrow> string + json" where
  "kmz_error msg = Inl (''Failed to process KMZ file: '' @ msg)"

text \<open>
  \<open>process_kmz_file\<close> ends by calling \<open>process_kml_file\<close>. In \<open>process_kmz_with\<close>
  that call goes to a parameter, so that what is handed to the KML path can be stated;
  \<open>process_kmz_file\<close> is the function with the service's own \<open>process_kml_file\<close>.
\<close>

definition process_kmz_with ::
  "(bytes \<Rightarrow> string \<Rightarrow> string + json) \<Rightarrow> (bytes \<Rightarrow> string + zip_archive) \<Rightarrow> bytes \<Rightarrow> string
     \<Rightarrow> string + json"
where
  "process_kmz_with kml_path unzip file_content filename =
     (case unzip file_content of
        Inl msg \<Rightarrow> kmz_error msg
      | Inr kmz \<Rightarrow>
          (let kml_files = filter (\<lambda>f. endswith f ''.kml'') (namelist kmz)
           in case kml_files of
                [] \<Rightarrow> kmz_error ''No KML files found in KMZ archive''
              | first_kml # _ \<Rightarrow>
                  (case zip_read kmz first_kml of
                     Inl msg \<Rightarrow> kmz_error msg
                   | Inr kml_content \<Rightarrow>
                       (case kml_path kml_content first_kml of
                          Inl msg \<Rightarrow> kmz_error msg
                        | Inr geom \<Rightarrow> Inr geom))))"

definition process_kmz_file :: "(bytes \<Rightarrow> string + zip_archive) \<Rightarrow> bytes \<Rightarrow> string \<Rightarrow> string + json" where
  "process_kmz_file unzip file_content filename =
     process_kmz_with process_kml_file unzip file_content filename"

definition process_shp_file :: "bytes \<Rightarrow> string \<Rightarrow> string + json" where
  "process_shp_file file_content filename =
     Inr (JObject
       [(''type'', JString ''FeatureCollection''),
        (''features'', JArray []),
        (''metadata'',
           JObject [(''source_file'', JString filename), (''processed'', JBool True),
                    (''format'', JString ''shapefile'')])])"

definition style :: "string \<Rightarrow> json" where
  "style colour =
     JObject [(''color'', JString colour), (''weight'', JNumber 3), (''opacity'', JNumber 0.8),
              (''fillColor'', JString colour), (''fillOpacity'', JNumber 0.2)]"

fun get_default_style :: "FileType \<Rightarrow> json" where
  "get_default_style KML = style ''#3388ff''"
| "get_default_style KMZ = style ''#ff7800''"
| "get_default_style SHP = style ''#ff3333''"

text \<open>
  \<open>save_user_layer\<close>. The storage path is the upload directory joined with the hash of
  the filename followed by the content's length, a dash and the filename.
\<close>

definition user_layer_path :: "(string \<Rightarrow> int) \<Rightarrow> string \<Rightarrow> bytes \<Rightarrow> string" where
  "user_layer_path hash filename file_content =
     path_join ''uploads/user_layers''
       (str_int (hash (filename @ str_nat (length file_content))) @ ''-'' @ filename)"

definition save_user_layer ::
  "(string \<Rightarrow> int) \<Rightarrow> datetime \<Rightarrow> (bytes \<Rightarrow> string + zip_archive) \<Rightarrow> app_state \<Rightarrow> bytes \<Rightarrow> string
     \<Rightarrow> FileType \<Rightarrow> string \<Rightarrow> string \<Rightarrow> bool \<Rightarrow> string option \<Rightarrow> UserLayer option \<times> app_state"
where
  "save_user_layer hash now unzip st file_content filename file_type name description
       is_public upload_ip =
     (case (case file_type of
              KML \<Rightarrow> process_kml_file file_content filename
            | KMZ \<Rightarrow> process_kmz_file unzip file_content filename
            | SHP \<Rightarrow> process_shp_file file_content filename) of
        Inl msg \<Rightarrow> (None, logging_error (''Error saving user layer: '' @ msg) st)
      | Inr geom_data \<Rightarrow>
          (let file_path = user_layer_path hash filename file_content;
               st1 = st\<lparr>files := (files st)(file_path \<mapsto> file_content)\<rparr>;
               user_layer =
                 \<lparr>ul_id = next_id (map ul_id (user_layers st1)),
                  ul_name = name,
                  ul_description = description,
                  ul_file_type = file_type,
                  ul_original_filename = filename,
                  ul_file_path = file_path,
                  ul_file_size = int (length file_content),
                  ul_geom_data = geom_data,
                  ul_style_properties = get_default_style file_type,
                  ul_is_public = is_public,
                  ul_is_active = True,
                  ul_upload_ip = upload_ip,
                  ul_created_at = now\<rparr>
           in (Some user_layer, st1\<lparr>user_layers := user_layers st1 @ [user_layer]\<rparr>)))"

text \<open>
  \<open>seed_default_layers\<close>. Fields the constructor is not given take the defaults of the
  table: source \<open>BIG\<close>, active, both timestamps from the clock.
\<close>

definition empty_collection :: json where
  "empty_collection = JObject [(''type'', JString ''FeatureCollection''), (''features'', JArray [])]"

definition default_layers :: "(string \<times> LayerType \<times> string \<times> int \<times> json) list" where
  "default_layers =
     [(''Sawah (Rice Fields)'', RICE_FIELDS,
       ''Peta sebaran lahan sawah di Kabupaten Lombok Barat'', 1,
       JObject [(''color'', JString ''#4CAF50''), (''weight'', JNumber 2),
                (''opacity'', JNumber 0.8), (''fillColor'', JString ''#81C784''),
                (''fillOpacity'', JNumber 0.6)]),
      (''Irigasi (Irrigation)'', IRRIGATION,
       ''Jaringan sistem irigasi di Kabupaten Lombok Barat'', 2,
       JObject [(''color'', JString ''#2196F3''), (''weight'', JNumber 3),
                (''opacity'', JNumber 0.9), (''fillColor'', JString ''#64B5F6''),
                (''fillOpacity'', JNumber 0.4)]),
      (''Jalan Kabupaten (Regency Roads)'', REGENCY_ROADS,
       ''Jaringan jalan kabupaten di Lombok Barat'', 3,
       JObject [(''color'', JString ''#FF9800''), (''weight'', JNumber 4),
                (''opacity'', JNumber 1)]),
      (''Batas Kabupaten (Regency Boundaries)'', REGENCY_BOUNDARIES,
       ''Batas administrasi Kabupaten Lombok Barat'', 4,
       JObject [(''color'', JString ''#9C27B0''), (''weight'', JNumber 3),
                (''opacity'', JNumber 1), (''fillColor'', JString ''#CE93D8''),
                (''fillOpacity'', JNumber 0.1)]),
      (''Batas Desa (Village Boundaries)'', VILLAGE_BOUNDARIES,
       ''Batas administrasi desa di Kabupaten Lombok Barat'', 5,
       JObject [(''color'', JString ''#607D8B''), (''weight'', JNumber 2),
                (''opacity'', JNumber 0.8), (''fillColor'', JString ''#90A4AE''),
                (''fillOpacity'', JNumber 0.2)])]"

text \<open>
  Every new row reads the clock twice (\<open>created_at\<close>, \<open>updated_at\<close>): \<open>utcnow k\<close> is
  the \<open>k\<close>-th reading during the call.
\<close>

definition add_static_layer ::
  "(nat \<Rightarrow> datetime) \<Rightarrow> app_state \<Rightarrow> nat \<times> string \<times> LayerType \<times> string \<times> int \<times> json \<Rightarrow> app_state"
where
  "add_static_layer utcnow st layer_data =
     (case layer_data of
        (k, name, layer_type, description, display_order, style_properties) \<Rightarrow>
          st\<lparr>static_layers := static_layers st @
               [\<lparr>sl_id = next_id (map sl_id (static_layers st)),
                 sl_name = name,
                 sl_layer_type = layer_type,
                 sl_description = description,
                 sl_source = ''BIG'',
                 sl_geom_data = empty_collection,
                 sl_style_properties = style_properties,
                 sl_is_active = True,
                 sl_display_order = display_order,
                 sl_created_at = utcnow (2 * k),
                 sl_updated_at = utcnow (2 * k + 1)\<rparr>]\<rparr>)"

definition seed_default_layers :: "(nat \<Rightarrow> datetime) \<Rightarrow> app_state \<Rightarrow> app_state" where
  "seed_default_layers utcnow st =
     (case static_layers st of
        [] \<Rightarrow> foldl (add_static_layer utcnow) st (zip [0 ..< length default_layers] default_layers)
      | existing # _ \<Rightarrow> st)"

section \<open>The claims' vocabulary\<close>

text \<open>
  The state machine as the specification words it: the status as a function of the two
  redirect flags.
\<close>

definition status_of_flags :: "bool \<Rightarrow> bool \<Rightarrow> ComplaintStatus" where
  "status_of_flags facebook lapor =
     (if facebook \<and> lapor then COMPLETED
      else if facebook \<or> lapor then REDIRECTED
      else SUBMITTED)"

definition status_consistent :: "Complaint \<Rightarrow> bool" where
  "status_consistent c =
     (c_status c = status_of_flags (c_facebook_redirected c) (c_lapor_redirected c))"

text \<open>A platform the service knows, in any letter case, and the flag that belongs to it.\<close>

definition known_platform :: "string \<Rightarrow> bool" where
  "known_platform platform = (lower platform = ''facebook'' \<or> lower platform = ''lapor'')"

definition flag_of :: "string \<Rightarrow> Complaint \<Rightarrow> bool" where
  "flag_of platform c =
     (if lower platform = ''facebook'' then c_facebook_redirected c else c_lapor_redirected c)"

text \<open>
  Histories of a store: complaints are created and marked in any order, starting from the
  empty store.
\<close>

datatype service_call =
    CreateComplaint datetime ComplaintCreate "string option"
  | MarkRedirected int string

fun run_call :: "app_state \<Rightarrow> service_call \<Rightarrow> app_state" where
  "run_call st (CreateComplaint now complaint_data submit_ip) =
     snd (create_complaint now st complaint_data submit_ip)"
| "run_call st (MarkRedirected complaint_id platform) =
     snd (mark_redirected st complaint_id platform)"

definition run_calls :: "app_state \<Rightarrow> service_call list \<Rightarrow> app_state" where
  "run_calls st calls = foldl run_call st calls"

fun known_call :: "service_call \<Rightarrow> bool" where
  "known_call (CreateComplaint now complaint_data submit_ip) = True"
| "known_call (MarkRedirected complaint_id platform) = known_platform platform"

text \<open>The complaint of the test suite, and the triple of status and flags of a row.\<close>

definition test_complaint :: ComplaintCreate where
  "test_complaint =
     \<lparr>cc_title = ''Test complaint'', cc_description = ''Test description'',
      cc_latitude = -8.55, cc_longitude = 116.15, cc_location_description = '''',
      cc_submitter_name = None, cc_submitter_email = None, cc_submitter_phone = None\<rparr>"

definition flags :: "Complaint \<Rightarrow> ComplaintStatus \<times> bool \<times> bool" where
  "flags c = (c_status c, c_facebook_redirected c, c_lapor_redirected c)"

text \<open>Sample stores for the two listings.\<close>

definition complaint_at :: "string \<Rightarrow> decimal \<Rightarrow> decimal \<Rightarrow> ComplaintCreate" where
  "complaint_at title latitude longitude =
     \<lparr>cc_title = title, cc_description = ''Test description'',
      cc_latitude = latitude, cc_longitude = longitude, cc_location_description = '''',
      cc_submitter_name = None, cc_submitter_email = None, cc_submitter_phone = None\<rparr>"

definition area_store :: app_state where
  "area_store =
     run_calls empty_state
       [CreateComplaint 1 (complaint_at ''Inside complaint'' (-8.55) 116.15) None,
        CreateComplaint 2 (complaint_at ''Outside complaint'' (-7.00) 117.00) None,
        CreateComplaint 3 (complaint_at ''Corner complaint'' (-8.8) 116.4) None]"

definition layer_store :: app_state where
  "layer_store =
     (let st0 = seed_default_layers (\<lambda>k. int k) empty_state;
          st1 = snd (save_user_layer (\<lambda>s. 7) 20 (\<lambda>b. Inl ''File is not a zip file'') st0
                  ''<kml></kml>'' ''public.kml'' KML ''Public Layer'' '''' True None);
          st2 = snd (save_user_layer (\<lambda>s. 7) 30 (\<lambda>b. Inl ''File is not a zip file'') st1
                  ''<kml></kml>'' ''private.kml'' KML ''Private Layer'' '''' False None);
          st3 = snd (save_user_layer (\<lambda>s. 7) 40 (\<lambda>b. Inl ''File is not a zip file'') st2
                  ''<kml></kml>'' ''newer.kml'' KML ''Newer Layer'' '''' True None)
      in st3)"

section \<open>The complaint status\<close>

lemma set_update_complaint: "set (update_complaint c' cs) \<subseteq> insert c' (set cs)"
  by (induction cs) auto

lemma find_by_id:
  "find (\<lambda>c. c_id c = cid) cs = Some c \<Longrightarrow> c_id c = cid"
  by (induction cs) (auto split: if_splits)

lemma update_complaint_same:
  "find (\<lambda>c. c_id c = cid) cs = Some c \<Longrightarrow> update_complaint c cs = cs"
  by (induction cs) (auto split: if_splits dest: find_by_id)

lemma find_update_complaint:
  "find (\<lambda>c. c_id c = cid) cs = Some c \<Longrightarrow> c_id c' = c_id c \<Longrightarrow>
   find (\<lambda>c. c_id c = cid) (update_complaint c' cs) = Some c'"
  by (induction cs) (auto split: if_splits dest: find_by_id)

lemma redirect_complaint_consistent:
  "known_platform platform \<Longrightarrow> status_consistent (redirect_complaint platform c)"
  by (auto simp: known_platform_def status_consistent_def redirect_complaint_def
      status_of_flags_def Let_def)

lemma redirect_complaint_id: "c_id (redirect_complaint platform c) = c_id c"
  by (simp add: redirect_complaint_def Let_def)

lemma redirect_complaint_flags:
  "known_platform platform \<Longrightarrow>
   flag_of platform (redirect_complaint platform c) \<and>
   (c_facebook_redirected c \<longrightarrow> c_facebook_redirected (redirect_complaint platform c)) \<and>
   (c_lapor_redirected c \<longrightarrow> c_lapor_redirected (redirect_complaint platform c))"
  by (auto simp: known_platform_def flag_of_def redirect_complaint_def Let_def)

lemma redirect_complaint_idem:
  "known_platform platform \<Longrightarrow> status_consistent c \<Longrightarrow> flag_of platform c \<Longrightarrow>
   redirect_complaint platform c = c"
  by (auto simp: known_platform_def status_consistent_def redirect_complaint_def
      status_of_flags_def flag_of_def Let_def split: if_splits)

lemma mark_redirected_consistent:
  assumes "known_platform platform" "\<forall>c \<in> set (complaints st). status_consistent c"
  shows "\<forall>c \<in> set (complaints (snd (mark_redirected st cid platform))). status_consistent c"
proof (cases "find (\<lambda>c. c_id c = cid) (complaints st)")
  case None
  then show ?thesis using assms by (simp add: mark_redirected_def)
next
  case (Some c)
  then show ?thesis
    using assms set_update_complaint [of "redirect_complaint platform c" "complaints st"]
      redirect_complaint_consistent [of platform c]
    by (auto simp: mark_redirected_def)
qed

lemma mark_redirected_idem:
  assumes "known_platform platform" "find (\<lambda>c. c_id c = cid) (complaints st) = Some c"
    "status_consistent c" "flag_of platform c"
  shows "mark_redirected st cid platform = (True, st)"
  using assms update_complaint_same [of cid "complaints st" c]
  by (simp add: mark_redirected_def redirect_complaint_idem)

lemma create_complaint_consistent:
  "\<forall>c \<in> set (complaints st). status_consistent c \<Longrightarrow>
   \<forall>c \<in> set (complaints (snd (create_complaint now st d ip))). status_consistent c"
  by (auto simp: create_complaint_def Let_def status_consistent_def status_of_flags_def)

lemma run_call_consistent:
  "known_call call \<Longrightarrow> \<forall>c \<in> set (complaints st). status_consistent c \<Longrightarrow>
   \<forall>c \<in> set (complaints (run_call st call)). status_consistent c"
proof (cases call)
  case (CreateComplaint now complaint_data submit_ip)
  assume "\<forall>c \<in> set (complaints st). status_consistent c"
  then show ?thesis
    unfolding CreateComplaint run_call.simps by (rule create_complaint_consistent)
next
  case (MarkRedirected complaint_id platform)
  assume "known_call call" "\<forall>c \<in> set (complaints st). status_consistent c"
  then show ?thesis
    unfolding MarkRedirected run_call.simps known_call.simps
    by (rule mark_redirected_consistent)
qed

lemma run_calls_consistent:
  "\<forall>call \<in> set calls. known_call call \<Longrightarrow>
   \<forall>c \<in> set (complaints st). status_consistent c \<Longrightarrow>
   \<forall>c \<in> set (complaints (run_calls st calls)). status_consistent c"
  unfolding run_calls_def
proof (induction calls arbitrary: st)
  case Nil
  then show ?case by simp
next
  case (Cons call calls)
  have "\<forall>c \<in> set (complaints (run_call st call)). status_consistent c"
    using Cons.prems by (intro run_call_consistent) auto
  then show ?case using Cons by simp
qed

lemma mark_redirected_found:
  assumes "find (\<lambda>c. c_id c = cid) (complaints st) = Some c"
  shows "fst (mark_redirected st cid platform) = True"
    and "find (\<lambda>c. c_id c = cid) (complaints (snd (mark_redirected st cid platform)))
         = Some (redirect_complaint platform c)"
  using assms find_update_complaint [of cid "complaints st" c "redirect_complaint platform c"]
  by (simp_all add: mark_redirected_def redirect_complaint_id)

text \<open>
  Claim C1. Take any history of the store in which every \<open>mark_redirected\<close> call names
  \<open>facebook\<close> or \<open>lapor\<close>, in any letter case. Then the status of every complaint is
  the function of its two flags: \<open>SUBMITTED\<close> with no flag, \<open>REDIRECTED\<close> with one,
  \<open>COMPLETED\<close> with both. A further such call on a stored complaint succeeds, sets the
  flag of its platform, clears no flag and leaves the status that function of the flags;
  when the flag was already set, the store is left exactly as it was.
\<close>

theorem mark_redirected_status_machine:
  assumes known: "\<forall>call \<in> set calls. known_call call"
    and st: "st = run_calls empty_state calls"
  shows "(\<forall>c \<in> set (complaints st).
            c_status c = status_of_flags (c_facebook_redirected c) (c_lapor_redirected c)) \<and>
         (\<forall>cid platform c. known_platform platform \<and>
              find (\<lambda>c. c_id c = cid) (complaints st) = Some c \<longrightarrow>
            (\<exists>c' st'. mark_redirected st cid platform = (True, st') \<and>
               find (\<lambda>c. c_id c = cid) (complaints st') = Some c' \<and>
               flag_of platform c' \<and>
               (c_facebook_redirected c \<longrightarrow> c_facebook_redirected c') \<and>
               (c_lapor_redirected c \<longrightarrow> c_lapor_redirected c') \<and>
               c_status c' = status_of_flags (c_facebook_redirected c') (c_lapor_redirected c') \<and>
               (flag_of platform c \<longrightarrow> st' = st)))"
proof -
  have inv: "\<forall>c \<in> set (complaints st). status_consistent c"
    unfolding st using known by (intro run_calls_consistent) (simp_all add: empty_state_def)
  have step: "\<exists>c' st'. mark_redirected st cid platform = (True, st') \<and>
               find (\<lambda>c. c_id c = cid) (complaints st') = Some c' \<and>
               flag_of platform c' \<and>
               (c_facebook_redirected c \<longrightarrow> c_facebook_redirected c') \<and>
               (c_lapor_redirected c \<longrightarrow> c_lapor_redirected c') \<and>
               c_status c' = status_of_flags (c_facebook_redirected c') (c_lapor_redirected c') \<and>
               (flag_of platform c \<longrightarrow> st' = st)"
    if p: "known_platform platform" and f: "find (\<lambda>c. c_id c = cid) (complaints st) = Some c"
    for cid platform c
  proof -
    let ?c' = "redirect_complaint platform c"
    let ?st' = "snd (mark_redirected st cid platform)"
    have 1: "mark_redirected st cid platform = (True, ?st')"
      using mark_redirected_found(1) [OF f, of platform] by (simp add: prod_eq_iff)
    have 2: "find (\<lambda>c. c_id c = cid) (complaints ?st') = Some ?c'"
      by (rule mark_redirected_found(2) [OF f])
    have 3: "status_consistent ?c'" by (rule redirect_complaint_consistent [OF p])
    have "c \<in> set (complaints st)" using f by (auto simp: find_Some_iff)
    then have c: "status_consistent c" using inv by blast
    have 4: "?st' = st" if "flag_of platform c"
      using mark_redirected_idem [OF p f c that] by simp
    show ?thesis
      using 1 2 3 4 redirect_complaint_flags [OF p, of c]
      by (auto simp: status_consistent_def)
  qed
  show ?thesis using inv step by (simp add: status_consistent_def)
qed

text \<open>
  The test suite's sequence: a new complaint, then \<open>facebook\<close>, then \<open>lapor\<close>, then
  \<open>facebook\<close> again.
\<close>

theorem mark_redirected_status_machine_witness:
  "map flags (complaints (run_calls empty_state
      [CreateComplaint 0 test_complaint None, MarkRedirected 1 ''facebook'']))
     = [(REDIRECTED, True, False)] \<and>
   map flags (complaints (run_calls empty_state
      [CreateComplaint 0 test_complaint None, MarkRedirected 1 ''facebook'',
       MarkRedirected 1 ''LAPOR'', MarkRedirected 1 ''Facebook'']))
     = [(COMPLETED, True, True)] \<and>
   list_all (\<lambda>c. c_status c = status_of_flags (c_facebook_redirected c) (c_lapor_redirected c))
     (complaints (run_calls empty_state
      [CreateComplaint 0 test_complaint None, MarkRedirected 1 ''facebook'',
       MarkRedirected 1 ''LAPOR'', MarkRedirected 1 ''Facebook'']))"
proof -
  let ?calls = "[CreateComplaint 0 test_complaint None, MarkRedirected 1 ''facebook'',
       MarkRedirected 1 ''LAPOR'', MarkRedirected 1 ''Facebook'']"
  have known: "\<forall>call \<in> set ?calls. known_call call"
    by (simp add: known_platform_def) code_simp
  have "list_all (\<lambda>c. c_status c = status_of_flags (c_facebook_redirected c) (c_lapor_redirected c))
     (complaints (run_calls empty_state ?calls))"
    using mark_redirected_status_machine [OF known refl] by (simp add: list_all_iff)
  moreover have "map flags (complaints (run_calls empty_state
      [CreateComplaint 0 test_complaint None, MarkRedirected 1 ''facebook'']))
     = [(REDIRECTED, True, False)]"
    by code_simp
  moreover have "map flags (complaints (run_calls empty_state ?calls)) = [(COMPLETED, True, True)]"
    by code_simp
  ultimately show ?thesis by simp
qed

text \<open>
  Claim C2 asks that a call with any other platform sets no flag and leaves the status
  alone. The branch on the platform has no \<open>else\<close>, and the status is assigned after
  it in every case: a new complaint marked for \<open>twitter\<close> keeps both flags clear and
  becomes \<open>REDIRECTED\<close>.
\<close>

theorem mark_redirected_unknown_platform:
  "map flags (complaints (run_calls empty_state [CreateComplaint 0 test_complaint None]))
     = [(SUBMITTED, False, False)] \<and>
   map flags (complaints (run_calls empty_state
      [CreateComplaint 0 test_complaint None, MarkRedirected 1 ''twitter'']))
     = [(REDIRECTED, False, False)]"
  by code_simp

section \<open>Photo attachment\<close>

lemma allowed_types:
  "ALLOWED_PHOTO_TYPES = {''image/jpeg'', ''image/png'', ''image/gif'', ''image/webp''}"
  by (simp add: ALLOWED_PHOTO_TYPES_def)

lemma max_size: "MAX_PHOTO_SIZE = 5242880"
  by (simp add: MAX_PHOTO_SIZE_def)

lemma foldr_max_ge: "x \<in> set ids \<Longrightarrow> x \<le> foldr max ids (0::int)"
  by (induction ids) auto

lemma next_id_fresh: "next_id ids \<notin> set ids"
proof
  assume "next_id ids \<in> set ids"
  then have "next_id ids \<le> foldr max ids 0" by (rule foldr_max_ge)
  then show False by (simp add: next_id_def)
qed

lemma add_photo_unsupported:
  "mime_type \<notin> ALLOWED_PHOTO_TYPES \<Longrightarrow>
   add_photo_to_complaint hash now open_error commit_error st cid file_content filename mime_type
       caption display_order =
     (None, st\<lparr>log := log st @
               [''Error adding photo to complaint: Unsupported file type: '' @ mime_type]\<rparr>)"
  by (simp add: add_photo_to_complaint_def logging_error_def)

lemma add_photo_too_large:
  "mime_type \<in> ALLOWED_PHOTO_TYPES \<Longrightarrow> length file_content > MAX_PHOTO_SIZE \<Longrightarrow>
   add_photo_to_complaint hash now open_error commit_error st cid file_content filename mime_type
       caption display_order =
     (None, st\<lparr>log := log st @
               [''Error adding photo to complaint: File size exceeds maximum limit (5MB)'']\<rparr>)"
  by (simp add: add_photo_to_complaint_def logging_error_def)

lemma add_photo_open_fails:
  assumes "mime_type \<in> ALLOWED_PHOTO_TYPES" "length file_content \<le> MAX_PHOTO_SIZE"
    and "open_error (photo_file_path hash cid file_content filename) = Some e"
  shows "add_photo_to_complaint hash now open_error commit_error st cid file_content filename
           mime_type caption display_order =
         (None, st\<lparr>log := log st @
               [''Error adding photo to complaint: '' @ e]\<rparr>)"
  using assms by (simp add: add_photo_to_complaint_def Let_def logging_error_def)

lemma add_photo_commit_fails:
  assumes "mime_type \<in> ALLOWED_PHOTO_TYPES" "length file_content \<le> MAX_PHOTO_SIZE"
    and "open_error (photo_file_path hash cid file_content filename) = None"
    and "st1 = st\<lparr>files := (files st)(photo_file_path hash cid file_content filename \<mapsto> file_content)\<rparr>"
    and "commit_error st1
           (new_photo now st1 cid file_content filename
              (photo_file_path hash cid file_content filename) mime_type caption display_order)
         = Some e"
  shows "add_photo_to_complaint hash now open_error commit_error st cid file_content filename
           mime_type caption display_order =
         (None, st1\<lparr>log := log st1 @
               [''Error adding photo to complaint: '' @ e]\<rparr>)"
  using assms by (simp add: add_photo_to_complaint_def Let_def logging_error_def)

lemma add_photo_stored:
  assumes "mime_type \<in> ALLOWED_PHOTO_TYPES" "length file_content \<le> MAX_PHOTO_SIZE"
    and "open_error (photo_file_path hash cid file_content filename) = None"
    and "st1 = st\<lparr>files := (files st)(photo_file_path hash cid file_content filename \<mapsto> file_content)\<rparr>"
    and "photo = new_photo now st1 cid file_content filename
              (photo_file_path hash cid file_content filename) mime_type caption display_order"
    and "commit_error st1 photo = None"
  shows "add_photo_to_complaint hash now open_error commit_error st cid file_content filename
           mime_type caption display_order =
         (Some photo, st1\<lparr>complaint_photos := complaint_photos st @ [photo]\<rparr>)"
  using assms by (simp add: add_photo_to_complaint_def Let_def logging_error_def)

lemma new_photo_fields:
  shows "new_photo now st cid file_content filename file_path mime_type caption display_order =
     \<lparr>p_id = p_id (new_photo now st cid file_content filename file_path mime_type caption
                     display_order),
      p_complaint_id = cid, p_filename = filename, p_file_path = file_path,
      p_file_size = int (length file_content), p_mime_type = mime_type, p_caption = caption,
      p_display_order = display_order, p_created_at = now\<rparr>"
    and "p_id (new_photo now st cid file_content filename file_path mime_type caption display_order)
         \<notin> set (map p_id (complaint_photos st))"
  using next_id_fresh [of "map p_id (complaint_photos st)"]
  by (simp_all add: new_photo_def)

text \<open>
  Claim C3, as amended. \<open>add_photo_to_complaint\<close> fails with the unsupported-type error
  whenever the MIME type is not one of \<open>image/jpeg\<close>, \<open>image/png\<close>, \<open>image/gif\<close>,
  \<open>image/webp\<close>; it fails with the size error whenever the MIME type is one of them and
  the payload is longer than 5,242,880 bytes (the type is checked first). A failure is the
  result \<open>None\<close> with the error's message logged; on either validation failure no photo
  row is stored and no file is written. A payload with an allowed type and a length within
  the limit passes the validation. It is stored when the file can be opened for writing and
  the commit goes through: the result is the new row, with a fresh key and the fields the
  caller gave, appended to the table, and the file holds the payload. When the file system
  or the database refuses, the result is \<open>None\<close> and no row is stored.
\<close>

theorem add_photo_validation:
  "let r = add_photo_to_complaint hash now open_error commit_error st cid file_content filename
             mime_type caption display_order;
       file_path = photo_file_path hash cid file_content filename;
       st1 = st\<lparr>files := (files st)(file_path \<mapsto> file_content)\<rparr>;
       photo = new_photo now st1 cid file_content filename file_path mime_type caption
                 display_order
   in
     (mime_type \<notin> {''image/jpeg'', ''image/png'', ''image/gif'', ''image/webp''} \<longrightarrow>
        r = (None, st\<lparr>log := log st @
               [''Error adding photo to complaint: Unsupported file type: '' @ mime_type]\<rparr>)) \<and>
     (mime_type \<in> {''image/jpeg'', ''image/png'', ''image/gif'', ''image/webp''} \<and>
      length file_content > 5242880 \<longrightarrow>
        r = (None, st\<lparr>log := log st @
               [''Error adding photo to complaint: File size exceeds maximum limit (5MB)'']\<rparr>)) \<and>
     (mime_type \<notin> {''image/jpeg'', ''image/png'', ''image/gif'', ''image/webp''} \<or>
      length file_content > 5242880 \<longrightarrow>
        fst r = None \<and> complaint_photos (snd r) = complaint_photos st \<and>
        files (snd r) = files st) \<and>
     (mime_type \<in> {''image/jpeg'', ''image/png'', ''image/gif'', ''image/webp''} \<and>
      length file_content \<le> 5242880 \<longrightarrow>
        (open_error file_path = None \<and> commit_error st1 photo = None \<longrightarrow>
           r = (Some photo, st1\<lparr>complaint_photos := complaint_photos st @ [photo]\<rparr>) \<and>
           files (snd r) file_path = Some file_content \<and>
           photo =
             \<lparr>p_id = p_id photo, p_complaint_id = cid, p_filename = filename,
              p_file_path = file_path, p_file_size = int (length file_content),
              p_mime_type = mime_type, p_caption = caption, p_display_order = display_order,
              p_created_at = now\<rparr> \<and>
           p_id photo \<notin> set (map p_id (complaint_photos st))) \<and>
        (open_error file_path \<noteq> None \<or> commit_error st1 photo \<noteq> None \<longrightarrow>
           fst r = None \<and> complaint_photos (snd r) = complaint_photos st))"
proof -
  define file_path where "file_path = photo_file_path hash cid file_content filename"
  define st1 where "st1 = st\<lparr>files := (files st)(file_path \<mapsto> file_content)\<rparr>"
  define photo where
    "photo = new_photo now st1 cid file_content filename file_path mime_type caption display_order"
  define r where
    "r = add_photo_to_complaint hash now open_error commit_error st cid file_content filename
           mime_type caption display_order"
  note defs = file_path_def st1_def photo_def r_def
  have photos1: "complaint_photos st1 = complaint_photos st" by (simp add: st1_def)
  have 1: "r = (None, st\<lparr>log := log st @
               [''Error adding photo to complaint: Unsupported file type: '' @ mime_type]\<rparr>)"
    if "mime_type \<notin> ALLOWED_PHOTO_TYPES"
    unfolding r_def using that by (rule add_photo_unsupported)
  have 2: "r = (None, st\<lparr>log := log st @
               [''Error adding photo to complaint: File size exceeds maximum limit (5MB)'']\<rparr>)"
    if "mime_type \<in> ALLOWED_PHOTO_TYPES" "length file_content > MAX_PHOTO_SIZE"
    unfolding r_def using that by (rule add_photo_too_large)
  have 3: "fst r = None \<and> complaint_photos (snd r) = complaint_photos st \<and> files (snd r) = files st"
    if "mime_type \<notin> ALLOWED_PHOTO_TYPES \<or> length file_content > MAX_PHOTO_SIZE"
    using that 1 2 by (cases "mime_type \<in> ALLOWED_PHOTO_TYPES") (auto simp: logging_error_def)
  have 4: "r = (Some photo, st1\<lparr>complaint_photos := complaint_photos st @ [photo]\<rparr>)"
    if "mime_type \<in> ALLOWED_PHOTO_TYPES" "length file_content \<le> MAX_PHOTO_SIZE"
      "open_error file_path = None" "commit_error st1 photo = None"
    unfolding r_def
    using that(1,2) that(3) [unfolded file_path_def] st1_def [unfolded file_path_def]
      photo_def [unfolded file_path_def] that(4)
    by (rule add_photo_stored)
  have 5: "fst r = None \<and> complaint_photos (snd r) = complaint_photos st"
    if ok: "mime_type \<in> ALLOWED_PHOTO_TYPES" "length file_content \<le> MAX_PHOTO_SIZE"
      and bad: "open_error file_path \<noteq> None \<or> commit_error st1 photo \<noteq> None"
  proof (cases "open_error file_path")
    case (Some e)
    then show ?thesis
      using add_photo_open_fails [OF ok, of open_error hash cid filename e now commit_error st
          caption display_order]
      by (simp add: r_def file_path_def logging_error_def)
  next
    case None
    then obtain e where e: "commit_error st1 photo = Some e" using bad by auto
    have "r = (None, st1\<lparr>log := log st1 @
               [''Error adding photo to complaint: '' @ e]\<rparr>)"
      unfolding r_def
      using ok None [unfolded file_path_def] st1_def [unfolded file_path_def]
        e [unfolded photo_def file_path_def]
      by (rule add_photo_commit_fails)
    then show ?thesis by (simp add: logging_error_def photos1)
  qed
  have 6: "photo =
             \<lparr>p_id = p_id photo, p_complaint_id = cid, p_filename = filename,
              p_file_path = file_path, p_file_size = int (length file_content),
              p_mime_type = mime_type, p_caption = caption, p_display_order = display_order,
              p_created_at = now\<rparr>"
    unfolding photo_def by (rule new_photo_fields(1))
  have 7: "p_id photo \<notin> set (map p_id (complaint_photos st))"
    using new_photo_fields(2) [of now st1 cid file_content filename file_path mime_type caption
        display_order]
    by (simp add: photo_def photos1)
  have 8: "files st1 file_path = Some file_content" by (simp add: st1_def)
  have B: "(mime_type \<notin> ALLOWED_PHOTO_TYPES \<longrightarrow>
        r = (None, st\<lparr>log := log st @
               [''Error adding photo to complaint: Unsupported file type: '' @ mime_type]\<rparr>)) \<and>
     (mime_type \<in> ALLOWED_PHOTO_TYPES \<and> length file_content > MAX_PHOTO_SIZE \<longrightarrow>
        r = (None, st\<lparr>log := log st @
               [''Error adding photo to complaint: File size exceeds maximum limit (5MB)'']\<rparr>)) \<and>
     (mime_type \<notin> ALLOWED_PHOTO_TYPES \<or> length file_content > MAX_PHOTO_SIZE \<longrightarrow>
        fst r = None \<and> complaint_photos (snd r) = complaint_photos st \<and>
        files (snd r) = files st) \<and>
     (mime_type \<in> ALLOWED_PHOTO_TYPES \<and> length file_content \<le> MAX_PHOTO_SIZE \<longrightarrow>
        (open_error file_path = None \<and> commit_error st1 photo = None \<longrightarrow>
           r = (Some photo, st1\<lparr>complaint_photos := complaint_photos st @ [photo]\<rparr>) \<and>
           files (snd r) file_path = Some file_content \<and>
           photo =
             \<lparr>p_id = p_id photo, p_complaint_id = cid, p_filename = filename,
              p_file_path = file_path, p_file_size = int (length file_content),
              p_mime_type = mime_type, p_caption = caption, p_display_order = display_order,
              p_created_at = now\<rparr> \<and>
           p_id photo \<notin> set (map p_id (complaint_photos st))) \<and>
        (open_error file_path \<noteq> None \<or> commit_error st1 photo \<noteq> None \<longrightarrow>
           fst r = None \<and> complaint_photos (snd r) = complaint_photos st))"
    using 1 2 3 4 5 6 7 8 by (auto simp del: ComplaintPhoto.simps)
  show ?thesis
    unfolding Let_def by (rule B [unfolded defs allowed_types max_size])
qed

lemma sample_paths:
  "photo_file_path (\<lambda>s. 7) 1 ''0123456789'' ''photo.jpg''
     = ''uploads/complaint_photos/complaint_1_7.jpg''"
  "photo_file_path (\<lambda>s. 7) 1 ''0123456789'' ''a.b/c''
     = ''uploads/complaint_photos/complaint_1_7.b/c''"
  "photo_file_path (\<lambda>s. 7) 999 ''0123456789'' ''photo.jpg''
     = ''uploads/complaint_photos/complaint_999_7.jpg''"
  "photo_file_path (\<lambda>s. 7) 999 ''0123456789'' ''a.b/c''
     = ''uploads/complaint_photos/complaint_999_7.b/c''"
  by code_simp+

lemma flat_directory_samples:
  "flat_directory UPLOAD_DIR ''uploads/complaint_photos/complaint_1_7.b/c'' \<noteq> None"
  "flat_directory UPLOAD_DIR ''uploads/complaint_photos/complaint_999_7.b/c'' \<noteq> None"
  "flat_directory UPLOAD_DIR ''uploads/complaint_photos/complaint_999_7.jpg'' = None"
  by code_simp+

text \<open>
  The three cases of the test suite (ten bytes of \<open>image/jpeg\<close>, a PDF, six mebibytes of
  \<open>image/jpeg\<close>), and ten bytes of \<open>image/jpeg\<close> under a filename whose extension
  names a directory that does not exist.
\<close>

theorem add_photo_validation_witness:
  "fst (add_photo_to_complaint (\<lambda>s. 7) 0 (\<lambda>p. None) (\<lambda>s p. None) empty_state 1 ''0123456789''
          ''photo.jpg'' ''image/jpeg'' '''' 0) \<noteq> None \<and>
   map p_file_path (complaint_photos (snd (add_photo_to_complaint (\<lambda>s. 7) 0 (\<lambda>p. None)
          (\<lambda>s p. None) empty_state 1 ''0123456789'' ''photo.jpg'' ''image/jpeg'' '''' 0)))
     = [''uploads/complaint_photos/complaint_1_7.jpg''] \<and>
   fst (add_photo_to_complaint (\<lambda>s. 7) 0 (\<lambda>p. None) (\<lambda>s p. None) empty_state 1
          ''fake content'' ''document.pdf'' ''application/pdf'' '''' 0) = None \<and>
   log (snd (add_photo_to_complaint (\<lambda>s. 7) 0 (\<lambda>p. None) (\<lambda>s p. None) empty_state 1
          ''fake content'' ''document.pdf'' ''application/pdf'' '''' 0))
     = [''Error adding photo to complaint: Unsupported file type: application/pdf''] \<and>
   fst (add_photo_to_complaint (\<lambda>s. 7) 0 (\<lambda>p. None) (\<lambda>s p. None) empty_state 1
          (replicate (6 * 1024 * 1024) (CHR ''x'')) ''large_photo.jpg'' ''image/jpeg'' '''' 0)
     = None \<and>
   log (snd (add_photo_to_complaint (\<lambda>s. 7) 0 (\<lambda>p. None) (\<lambda>s p. None) empty_state 1
          (replicate (6 * 1024 * 1024) (CHR ''x'')) ''large_photo.jpg'' ''image/jpeg'' '''' 0))
     = [''Error adding photo to complaint: File size exceeds maximum limit (5MB)''] \<and>
   fst (add_photo_to_complaint (\<lambda>s. 7) 0 (flat_directory UPLOAD_DIR) (\<lambda>s p. None) empty_state 1
          ''0123456789'' ''a.b/c'' ''image/jpeg'' '''' 0) = None \<and>
   complaint_photos (snd (add_photo_to_complaint (\<lambda>s. 7) 0 (flat_directory UPLOAD_DIR)
          (\<lambda>s p. None) empty_state 1 ''0123456789'' ''a.b/c'' ''image/jpeg'' '''' 0)) = []"
proof -
  note inst = add_photo_validation [where hash = "\<lambda>s. 7" and now = 0 and st = empty_state
      and cid = 1 and caption = "''''" and display_order = 0, unfolded Let_def]
  have e: "complaint_photos empty_state = []" "log empty_state = []"
    by (simp_all add: empty_state_def)
  have a: "fst (add_photo_to_complaint (\<lambda>s. 7) 0 (\<lambda>p. None) (\<lambda>s p. None) empty_state 1
               ''0123456789'' ''photo.jpg'' ''image/jpeg'' '''' 0) \<noteq> None"
    and b: "map p_file_path (complaint_photos (snd (add_photo_to_complaint (\<lambda>s. 7) 0 (\<lambda>p. None)
          (\<lambda>s p. None) empty_state 1 ''0123456789'' ''photo.jpg'' ''image/jpeg'' '''' 0)))
     = [''uploads/complaint_photos/complaint_1_7.jpg'']"
    using inst [where open_error = "\<lambda>p. None" and commit_error = "\<lambda>s p. None"
        and file_content = "''0123456789''" and filename = "''photo.jpg''"
        and mime_type = "''image/jpeg''"]
    by (simp_all add: e sample_paths new_photo_def)
  have c: "fst (add_photo_to_complaint (\<lambda>s. 7) 0 (\<lambda>p. None) (\<lambda>s p. None) empty_state 1
          ''fake content'' ''document.pdf'' ''application/pdf'' '''' 0) = None"
    "log (snd (add_photo_to_complaint (\<lambda>s. 7) 0 (\<lambda>p. None) (\<lambda>s p. None) empty_state 1
          ''fake content'' ''document.pdf'' ''application/pdf'' '''' 0))
     = [''Error adding photo to complaint: Unsupported file type: application/pdf'']"
    using inst [where open_error = "\<lambda>p. None" and commit_error = "\<lambda>s p. None"
        and file_content = "''fake content''" and filename = "''document.pdf''"
        and mime_type = "''application/pdf''"]
    by (simp_all add: e)
  have d: "fst (add_photo_to_complaint (\<lambda>s. 7) 0 (\<lambda>p. None) (\<lambda>s p. None) empty_state 1
          (replicate (6 * 1024 * 1024) (CHR ''x'')) ''large_photo.jpg'' ''image/jpeg'' '''' 0)
     = None"
    "log (snd (add_photo_to_complaint (\<lambda>s. 7) 0 (\<lambda>p. None) (\<lambda>s p. None) empty_state 1
          (replicate (6 * 1024 * 1024) (CHR ''x'')) ''large_photo.jpg'' ''image/jpeg'' '''' 0))
     = [''Error adding photo to complaint: File size exceeds maximum limit (5MB)'']"
    using inst [where open_error = "\<lambda>p. None" and commit_error = "\<lambda>s p. None"
        and file_content = "replicate (6 * 1024 * 1024) (CHR ''x'')"
        and filename = "''large_photo.jpg''" and mime_type = "''image/jpeg''"]
    by (simp_all add: e)
  have f: "fst (add_photo_to_complaint (\<lambda>s. 7) 0 (flat_directory UPLOAD_DIR) (\<lambda>s p. None)
          empty_state 1 ''0123456789'' ''a.b/c'' ''image/jpeg'' '''' 0) = None \<and>
     complaint_photos (snd (add_photo_to_complaint (\<lambda>s. 7) 0 (flat_directory UPLOAD_DIR)
          (\<lambda>s p. None) empty_state 1 ''0123456789'' ''a.b/c'' ''image/jpeg'' '''' 0)) = []"
    using inst [where open_error = "flat_directory UPLOAD_DIR" and commit_error = "\<lambda>s p. None"
        and file_content = "''0123456789''" and filename = "''a.b/c''"
        and mime_type = "''image/jpeg''"]
      flat_directory_samples(1)
    by (simp add: e sample_paths)
  show ?thesis using a b c d f by simp
qed

text \<open>
  Claim C3 as it was stated fails in two places. A payload over the limit with the type
  \<open>application/pdf\<close> is refused for its type, not for its size. And ten bytes of
  \<open>image/jpeg\<close> are not stored under the filename \<open>a.b/c\<close>: the storage path lies in a
  directory that does not exist, opening it fails and the result is \<open>None\<close>.
\<close>

theorem add_photo_validation_counterexample:
  "5242880 < length (replicate 5242881 (CHR ''x'')) \<and>
   fst (add_photo_to_complaint (\<lambda>s. 7) 0 (\<lambda>p. None) (\<lambda>s p. None) empty_state 1
          (replicate 5242881 (CHR ''x'')) ''large.pdf'' ''application/pdf'' '''' 0) = None \<and>
   log (snd (add_photo_to_complaint (\<lambda>s. 7) 0 (\<lambda>p. None) (\<lambda>s p. None) empty_state 1
          (replicate 5242881 (CHR ''x'')) ''large.pdf'' ''application/pdf'' '''' 0))
     = [''Error adding photo to complaint: Unsupported file type: application/pdf''] \<and>
   ''image/jpeg'' \<in> ALLOWED_PHOTO_TYPES \<and> length ''0123456789'' = 10 \<and>
   fst (add_photo_to_complaint (\<lambda>s. 7) 0 (flat_directory UPLOAD_DIR) (\<lambda>s p. None) empty_state 1
          ''0123456789'' ''a.b/c'' ''image/jpeg'' '''' 0) = None \<and>
   complaint_photos (snd (add_photo_to_complaint (\<lambda>s. 7) 0 (flat_directory UPLOAD_DIR)
          (\<lambda>s p. None) empty_state 1 ''0123456789'' ''a.b/c'' ''image/jpeg'' '''' 0)) = [] \<and>
   log (snd (add_photo_to_complaint (\<lambda>s. 7) 0 (flat_directory UPLOAD_DIR) (\<lambda>s p. None)
          empty_state 1 ''0123456789'' ''a.b/c'' ''image/jpeg'' '''' 0))
     = [''Error adding photo to complaint: [Errno 2] No such file or directory: ''
          @ [CHR 0x27] @ ''uploads/complaint_photos/complaint_1_7.b/c'' @ [CHR 0x27]]"
proof -
  have "flat_directory UPLOAD_DIR ''uploads/complaint_photos/complaint_1_7.b/c'' =
      Some (''[Errno 2] No such file or directory: ''
           @ [CHR 0x27] @ ''uploads/complaint_photos/complaint_1_7.b/c'' @ [CHR 0x27])"
    by code_simp
  then have a: "add_photo_to_complaint (\<lambda>s. 7) 0 (flat_directory UPLOAD_DIR) (\<lambda>s p. None)
       empty_state 1 ''0123456789'' ''a.b/c'' ''image/jpeg'' '''' 0 =
     (None, logging_error
        (''Error adding photo to complaint: [Errno 2] No such file or directory: ''
           @ [CHR 0x27] @ ''uploads/complaint_photos/complaint_1_7.b/c'' @ [CHR 0x27])
        empty_state)"
    by (simp add: add_photo_to_complaint_def ALLOWED_PHOTO_TYPES_def MAX_PHOTO_SIZE_def
        sample_paths)
  have b: "add_photo_to_complaint (\<lambda>s. 7) 0 (\<lambda>p. None) (\<lambda>s p. None) empty_state 1
       (replicate 5242881 (CHR ''x'')) ''large.pdf'' ''application/pdf'' '''' 0 =
     (None, logging_error
        ''Error adding photo to complaint: Unsupported file type: application/pdf'' empty_state)"
    by (simp add: add_photo_to_complaint_def ALLOWED_PHOTO_TYPES_def)
  show ?thesis
    unfolding a b by (simp add: logging_error_def empty_state_def ALLOWED_PHOTO_TYPES_def)
qed

text \<open>
  Claim C10, as amended. \<open>add_photo_to_complaint\<close> never looks the complaint up: for
  every complaint id, stored or not, and every payload that passes the two checks, what
  happens depends on the file system and the database only. If the file cannot be opened
  the result is \<open>None\<close> with the file system's message logged. Otherwise the payload is
  written, and a row with that complaint id and that path is handed to the database: if
  the commit fails the result is \<open>None\<close> with the database's message logged and the file
  stays; if it goes through, the row is stored and returned. The complaints table is never
  changed, and no failure of the function's own reports a missing complaint.
\<close>

theorem add_photo_no_existence_check:
  assumes "mime_type \<in> {''image/jpeg'', ''image/png'', ''image/gif'', ''image/webp''}"
    and "length file_content \<le> 5242880"
  shows
    "let r = add_photo_to_complaint hash now open_error commit_error st cid file_content
               filename mime_type caption display_order;
         file_path = photo_file_path hash cid file_content filename;
         st1 = st\<lparr>files := (files st)(file_path \<mapsto> file_content)\<rparr>;
         photo = new_photo now st1 cid file_content filename file_path mime_type caption
                   display_order
     in
       p_complaint_id photo = cid \<and> p_file_path photo = file_path \<and>
       (open_error file_path = None \<longrightarrow> files (snd r) file_path = Some file_content) \<and>
       complaints (snd r) = complaints st \<and>
       (\<forall>e. open_error file_path = Some e \<longrightarrow>
          r = (None, st\<lparr>log := log st @
               [''Error adding photo to complaint: '' @ e]\<rparr>)) \<and>
       (\<forall>e. open_error file_path = None \<and> commit_error st1 photo = Some e \<longrightarrow>
          r = (None, st1\<lparr>log := log st1 @
               [''Error adding photo to complaint: '' @ e]\<rparr>)) \<and>
       (open_error file_path = None \<and> commit_error st1 photo = None \<longrightarrow>
          r = (Some photo, st1\<lparr>complaint_photos := complaint_photos st @ [photo]\<rparr>))"
proof -
  have ok: "mime_type \<in> ALLOWED_PHOTO_TYPES" "length file_content \<le> MAX_PHOTO_SIZE"
    using assms by (simp_all add: allowed_types max_size)
  define file_path where "file_path = photo_file_path hash cid file_content filename"
  define st1 where "st1 = st\<lparr>files := (files st)(file_path \<mapsto> file_content)\<rparr>"
  define photo where
    "photo = new_photo now st1 cid file_content filename file_path mime_type caption display_order"
  define r where
    "r = add_photo_to_complaint hash now open_error commit_error st cid file_content filename
           mime_type caption display_order"
  note defs = file_path_def st1_def photo_def r_def
  have 1: "r = (None, st\<lparr>log := log st @
               [''Error adding photo to complaint: '' @ e]\<rparr>)"
    if "open_error file_path = Some e" for e
    unfolding r_def using ok that [unfolded file_path_def] by (rule add_photo_open_fails)
  have 2: "r = (None, st1\<lparr>log := log st1 @
               [''Error adding photo to complaint: '' @ e]\<rparr>)"
    if "open_error file_path = None" "commit_error st1 photo = Some e" for e
    unfolding r_def
    using ok that(1) [unfolded file_path_def] st1_def [unfolded file_path_def]
      that(2) [unfolded photo_def file_path_def]
    by (rule add_photo_commit_fails)
  have 3: "r = (Some photo, st1\<lparr>complaint_photos := complaint_photos st @ [photo]\<rparr>)"
    if "open_error file_path = None" "commit_error st1 photo = None"
    unfolding r_def
    using ok that(1) [unfolded file_path_def] st1_def [unfolded file_path_def]
      photo_def [unfolded file_path_def] that(2)
    by (rule add_photo_stored)
  have 4: "complaints (snd r) = complaints st"
  proof (cases "open_error file_path")
    case (Some e)
    then show ?thesis using 1 by (simp add: logging_error_def)
  next
    case None
    show ?thesis
    proof (cases "commit_error st1 photo")
      case (Some e)
      then show ?thesis using 2 None by (simp add: logging_error_def st1_def)
    next
      case n: None
      then show ?thesis using 3 None by (simp add: st1_def)
    qed
  qed
  have 5: "p_complaint_id photo = cid \<and> p_file_path photo = file_path"
    by (simp add: photo_def new_photo_def)
  have 6: "files (snd r) file_path = Some file_content" if o: "open_error file_path = None"
  proof (cases "commit_error st1 photo")
    case (Some e)
    then show ?thesis using 2 o by (simp add: st1_def)
  next
    case None
    then show ?thesis using 3 o by (simp add: st1_def)
  qed
  have B: "p_complaint_id photo = cid \<and> p_file_path photo = file_path \<and>
       (open_error file_path = None \<longrightarrow> files (snd r) file_path = Some file_content) \<and>
       complaints (snd r) = complaints st \<and>
       (\<forall>e. open_error file_path = Some e \<longrightarrow>
          r = (None, st\<lparr>log := log st @
               [''Error adding photo to complaint: '' @ e]\<rparr>)) \<and>
       (\<forall>e. open_error file_path = None \<and> commit_error st1 photo = Some e \<longrightarrow>
          r = (None, st1\<lparr>log := log st1 @
               [''Error adding photo to complaint: '' @ e]\<rparr>)) \<and>
       (open_error file_path = None \<and> commit_error st1 photo = None \<longrightarrow>
          r = (Some photo, st1\<lparr>complaint_photos := complaint_photos st @ [photo]\<rparr>))"
    using 1 2 3 4 5 6 by blast
  show ?thesis
    unfolding Let_def by (rule B [unfolded defs])
qed

text \<open>
  A photo for complaint 999 in a store without complaints: stored by a database that does
  not check the foreign key, refused (after the file is written) by one that does.
\<close>

theorem add_photo_no_existence_check_witness:
  "complaints empty_state = [] \<and>
   fst (add_photo_to_complaint (\<lambda>s. 7) 0 (flat_directory UPLOAD_DIR) (\<lambda>s p. None) empty_state
          999 ''0123456789'' ''photo.jpg'' ''image/jpeg'' '''' 0) \<noteq> None \<and>
   map p_complaint_id (complaint_photos (snd (add_photo_to_complaint (\<lambda>s. 7) 0
          (flat_directory UPLOAD_DIR) (\<lambda>s p. None) empty_state 999 ''0123456789'' ''photo.jpg''
          ''image/jpeg'' '''' 0))) = [999] \<and>
   fst (add_photo_to_complaint (\<lambda>s. 7) 0 (flat_directory UPLOAD_DIR) foreign_key_enforced
          empty_state 999 ''0123456789'' ''photo.jpg'' ''image/jpeg'' '''' 0) = None \<and>
   complaint_photos (snd (add_photo_to_complaint (\<lambda>s. 7) 0 (flat_directory UPLOAD_DIR)
          foreign_key_enforced empty_state 999 ''0123456789'' ''photo.jpg'' ''image/jpeg''
          '''' 0)) = [] \<and>
   files (snd (add_photo_to_complaint (\<lambda>s. 7) 0 (flat_directory UPLOAD_DIR)
          foreign_key_enforced empty_state 999 ''0123456789'' ''photo.jpg'' ''image/jpeg''
          '''' 0)) ''uploads/complaint_photos/complaint_999_7.jpg'' = Some ''0123456789'' \<and>
   log (snd (add_photo_to_complaint (\<lambda>s. 7) 0 (flat_directory UPLOAD_DIR)
          foreign_key_enforced empty_state 999 ''0123456789'' ''photo.jpg'' ''image/jpeg''
          '''' 0)) =
     [''Error adding photo to complaint: IntegrityError: violates foreign key constraint on complaint_id'']"
proof -
  note inst = add_photo_no_existence_check [where hash = "\<lambda>s. 7" and now = 0
      and st = empty_state and cid = 999 and caption = "''''" and display_order = 0
      and mime_type = "''image/jpeg''" and file_content = "''0123456789''"
      and filename = "''photo.jpg''" and open_error = "flat_directory UPLOAD_DIR",
      unfolded Let_def sample_paths]
  have e: "complaints empty_state = []" "complaint_photos empty_state = []"
    "log empty_state = []"
    by (simp_all add: empty_state_def)
  have a: "fst (add_photo_to_complaint (\<lambda>s. 7) 0 (flat_directory UPLOAD_DIR) (\<lambda>s p. None)
          empty_state 999 ''0123456789'' ''photo.jpg'' ''image/jpeg'' '''' 0) \<noteq> None"
    and b: "map p_complaint_id (complaint_photos (snd (add_photo_to_complaint (\<lambda>s. 7) 0
          (flat_directory UPLOAD_DIR) (\<lambda>s p. None) empty_state 999 ''0123456789'' ''photo.jpg''
          ''image/jpeg'' '''' 0))) = [999]"
    using inst [where commit_error = "\<lambda>s p. None"] flat_directory_samples(3)
    by (simp_all add: e)
  have fk: "foreign_key_enforced st photo
      = Some ''IntegrityError: violates foreign key constraint on complaint_id''"
    if "complaints st = []" for st photo
    using that by (simp add: foreign_key_enforced_def)
  have c: "add_photo_to_complaint (\<lambda>s. 7) 0 (flat_directory UPLOAD_DIR) foreign_key_enforced
          empty_state 999 ''0123456789'' ''photo.jpg'' ''image/jpeg'' '''' 0 =
     (None, logging_error
        ''Error adding photo to complaint: IntegrityError: violates foreign key constraint on complaint_id''
        (empty_state\<lparr>files := (files empty_state)
           (''uploads/complaint_photos/complaint_999_7.jpg'' \<mapsto> ''0123456789'')\<rparr>))"
    using inst [where commit_error = foreign_key_enforced] flat_directory_samples(3)
    by (simp add: fk e logging_error_def)
  show ?thesis
    unfolding c using a b by (simp add: logging_error_def e)
qed

text \<open>
  Claim C10 as it was stated fails for complaint 999 in a store without complaints: under
  the filename \<open>a.b/c\<close> nothing is written and no row is created, and a database that
  enforces the foreign key stores no row for the missing complaint.
\<close>

theorem add_photo_no_existence_check_counterexample:
  "find (\<lambda>c. c_id c = 999) (complaints empty_state) = None \<and>
   ''image/jpeg'' \<in> ALLOWED_PHOTO_TYPES \<and> length ''0123456789'' \<le> MAX_PHOTO_SIZE \<and>
   fst (add_photo_to_complaint (\<lambda>s. 7) 0 (flat_directory UPLOAD_DIR) (\<lambda>s p. None) empty_state
          999 ''0123456789'' ''a.b/c'' ''image/jpeg'' '''' 0) = None \<and>
   complaint_photos (snd (add_photo_to_complaint (\<lambda>s. 7) 0 (flat_directory UPLOAD_DIR)
          (\<lambda>s p. None) empty_state 999 ''0123456789'' ''a.b/c'' ''image/jpeg'' '''' 0)) = [] \<and>
   files (snd (add_photo_to_complaint (\<lambda>s. 7) 0 (flat_directory UPLOAD_DIR)
          (\<lambda>s p. None) empty_state 999 ''0123456789'' ''a.b/c'' ''image/jpeg'' '''' 0))
     ''uploads/complaint_photos/complaint_999_7.b/c'' = None \<and>
   fst (add_photo_to_complaint (\<lambda>s. 7) 0 (flat_directory UPLOAD_DIR) foreign_key_enforced
          empty_state 999 ''0123456789'' ''photo.jpg'' ''image/jpeg'' '''' 0) = None \<and>
   complaint_photos (snd (add_photo_to_complaint (\<lambda>s. 7) 0 (flat_directory UPLOAD_DIR)
          foreign_key_enforced empty_state 999 ''0123456789'' ''photo.jpg'' ''image/jpeg''
          '''' 0)) = []"
proof -
  obtain e where e: "flat_directory UPLOAD_DIR ''uploads/complaint_photos/complaint_999_7.b/c''
      = Some e"
    using flat_directory_samples(2) by blast
  have a: "add_photo_to_complaint (\<lambda>s. 7) 0 (flat_directory UPLOAD_DIR) (\<lambda>s p. None) empty_state
          999 ''0123456789'' ''a.b/c'' ''image/jpeg'' '''' 0 =
       (None, empty_state\<lparr>log := log empty_state @
               [''Error adding photo to complaint: '' @ e]\<rparr>)"
    using e
    by (simp add: add_photo_to_complaint_def ALLOWED_PHOTO_TYPES_def MAX_PHOTO_SIZE_def
        sample_paths logging_error_def)
  have b: "add_photo_to_complaint (\<lambda>s. 7) 0 (flat_directory UPLOAD_DIR) foreign_key_enforced
          empty_state 999 ''0123456789'' ''photo.jpg'' ''image/jpeg'' '''' 0 =
     (None, logging_error
        ''Error adding photo to complaint: IntegrityError: violates foreign key constraint on complaint_id''
        (empty_state\<lparr>files := (files empty_state)
           (''uploads/complaint_photos/complaint_999_7.jpg'' \<mapsto> ''0123456789'')\<rparr>))"
    using flat_directory_samples(3)
    by (simp add: add_photo_to_complaint_def ALLOWED_PHOTO_TYPES_def MAX_PHOTO_SIZE_def
        sample_paths foreign_key_enforced_def empty_state_def Let_def)
  show ?thesis
    unfolding a b
    by (simp add: logging_error_def empty_state_def ALLOWED_PHOTO_TYPES_def MAX_PHOTO_SIZE_def)
qed

section \<open>KMZ archives\<close>

lemma no_kml_entry:
  "find (\<lambda>e. P (fst e)) kmz = None \<Longrightarrow> filter P (map fst kmz) = []"
  by (induction kmz) (auto split: if_splits)

lemma first_kml_entry:
  "find (\<lambda>e. P (fst e)) kmz = Some (name, content) \<Longrightarrow>
   \<exists>rest. filter P (map fst kmz) = name # rest"
  by (induction kmz) (auto split: if_splits)

lemma zip_read_last:
  assumes "(name, content) \<in> set kmz"
  shows "zip_read kmz name = Inr (snd (last (filter (\<lambda>e. fst e = name) kmz)))"
    and "last (filter (\<lambda>e. fst e = name) kmz) \<in> set kmz"
    and "fst (last (filter (\<lambda>e. fst e = name) kmz)) = name"
proof -
  have ne: "filter (\<lambda>e. fst e = name) kmz \<noteq> []"
    using assms by (force simp: filter_empty_conv)
  then show "zip_read kmz name = Inr (snd (last (filter (\<lambda>e. fst e = name) kmz)))"
    by (cases "filter (\<lambda>e. fst e = name) kmz") (simp_all add: zip_read_def)
  have "last (filter (\<lambda>e. fst e = name) kmz) \<in> set (filter (\<lambda>e. fst e = name) kmz)"
    using ne by (rule last_in_set)
  then show "last (filter (\<lambda>e. fst e = name) kmz) \<in> set kmz"
    and "fst (last (filter (\<lambda>e. fst e = name) kmz)) = name"
    by simp_all
qed

text \<open>
  Claim C4, as amended. For bytes that open as an archive, \<open>process_kmz_file\<close> looks for
  the first entry whose name ends in \<open>.kml\<close>. With no such entry it fails with the error
  \<open>No KML files found in KMZ archive\<close>. Otherwise it hands to the KML path that entry's
  name and the content the archive gives under that name, which is the content of the
  last entry of that name: the entry's own content whenever no entry of the same name has
  another content. The result is what the KML path returns (its error wrapped once more);
  with the service's KML path it is the feature collection whose metadata record the
  entry's name as source file, not the uploaded filename. Entries under other names play
  no part.
\<close>

theorem process_kmz_file_first_kml:
  assumes "unzip file_content = Inr kmz"
  shows
    "(find (\<lambda>e. endswith (fst e) ''.kml'') kmz = None \<longrightarrow>
        process_kmz_with kml_path unzip file_content filename
          = Inl ''Failed to process KMZ file: No KML files found in KMZ archive'' \<and>
        process_kmz_file unzip file_content filename
          = Inl ''Failed to process KMZ file: No KML files found in KMZ archive'') \<and>
     (\<forall>name content.
        find (\<lambda>e. endswith (fst e) ''.kml'') kmz = Some (name, content) \<longrightarrow>
          (\<exists>read.
             read = snd (last (filter (\<lambda>e. fst e = name) kmz)) \<and>
             (name, read) \<in> set kmz \<and>
             ((\<forall>other. (name, other) \<in> set kmz \<longrightarrow> other = content) \<longrightarrow> read = content) \<and>
             process_kmz_with kml_path unzip file_content filename =
               (case kml_path read name of
                  Inl msg \<Rightarrow> Inl (''Failed to process KMZ file: '' @ msg)
                | Inr geom \<Rightarrow> Inr geom)) \<and>
          process_kmz_file unzip file_content filename =
            Inr (JObject
              [(''type'', JString ''FeatureCollection''),
               (''features'', JArray []),
               (''metadata'',
                  JObject [(''source_file'', JString name), (''processed'', JBool True),
                           (''format'', JString ''kml'')])]))"
proof (intro conjI allI impI)
  assume "find (\<lambda>e. endswith (fst e) ''.kml'') kmz = None"
  then have n: "filter (\<lambda>f. endswith f ''.kml'') (map fst kmz) = []"
    by (rule no_kml_entry)
  show "process_kmz_with kml_path unzip file_content filename
          = Inl ''Failed to process KMZ file: No KML files found in KMZ archive''"
    using assms n by (simp add: process_kmz_with_def namelist_def kmz_error_def)
  show "process_kmz_file unzip file_content filename
          = Inl ''Failed to process KMZ file: No KML files found in KMZ archive''"
    using assms n
    by (simp add: process_kmz_file_def process_kmz_with_def namelist_def kmz_error_def)
next
  fix name content
  assume f: "find (\<lambda>e. endswith (fst e) ''.kml'') kmz = Some (name, content)"
  then obtain rest where r: "filter (\<lambda>f. endswith f ''.kml'') (map fst kmz) = name # rest"
    using first_kml_entry [of "\<lambda>f. endswith f ''.kml''" kmz name content] by blast
  have mem: "(name, content) \<in> set kmz" using f by (auto simp: find_Some_iff)
  let ?read = "snd (last (filter (\<lambda>e. fst e = name) kmz))"
  note z = zip_read_last [OF mem]
  have in_kmz: "(name, ?read) \<in> set kmz"
    using z(2) z(3) by (metis prod.collapse)
  have w: "process_kmz_with kml_path unzip file_content filename =
               (case kml_path ?read name of
                  Inl msg \<Rightarrow> Inl (''Failed to process KMZ file: '' @ msg)
                | Inr geom \<Rightarrow> Inr geom)"
    for kml_path
    using assms r z(1)
    by (simp add: process_kmz_with_def namelist_def kmz_error_def split: sum.splits)
  show "\<exists>read.
             read = snd (last (filter (\<lambda>e. fst e = name) kmz)) \<and>
             (name, read) \<in> set kmz \<and>
             ((\<forall>other. (name, other) \<in> set kmz \<longrightarrow> other = content) \<longrightarrow> read = content) \<and>
             process_kmz_with kml_path unzip file_content filename =
               (case kml_path read name of
                  Inl msg \<Rightarrow> Inl (''Failed to process KMZ file: '' @ msg)
                | Inr geom \<Rightarrow> Inr geom)"
    using in_kmz w by blast
  show "process_kmz_file unzip file_content filename =
            Inr (JObject
              [(''type'', JString ''FeatureCollection''),
               (''features'', JArray []),
               (''metadata'',
                  JObject [(''source_file'', JString name), (''processed'', JBool True),
                           (''format'', JString ''kml'')])])"
    unfolding process_kmz_file_def w by (simp add: process_kml_file_def)
qed

text \<open>
  An archive with a text file and two KML documents, run with the service's KML path and
  with one that returns what it is given; and an archive without a KML document.
\<close>

theorem process_kmz_file_first_kml_witness:
  "process_kmz_file
       (\<lambda>b. Inr [(''readme.txt'', ''x''), (''doc.kml'', ''<kml/>''), (''other.kml'', ''y'')])
       ''PK'' ''upload.kmz'' =
     Inr (JObject
       [(''type'', JString ''FeatureCollection''),
        (''features'', JArray []),
        (''metadata'',
           JObject [(''source_file'', JString ''doc.kml''), (''processed'', JBool True),
                    (''format'', JString ''kml'')])]) \<and>
   process_kmz_with (\<lambda>content name. Inr (JArray [JString content, JString name]))
       (\<lambda>b. Inr [(''readme.txt'', ''x''), (''doc.kml'', ''<kml/>''), (''other.kml'', ''y'')])
       ''PK'' ''upload.kmz'' =
     Inr (JArray [JString ''<kml/>'', JString ''doc.kml'']) \<and>
   process_kmz_file (\<lambda>b. Inr [(''readme.txt'', ''x'')]) ''PK'' ''upload.kmz'' =
     Inl ''Failed to process KMZ file: No KML files found in KMZ archive''"
proof -
  let ?kmz = "[(''readme.txt'', ''x''), (''doc.kml'', ''<kml/>''), (''other.kml'', ''y'')]"
  have f: "find (\<lambda>e. endswith (fst e) ''.kml'') ?kmz = Some (''doc.kml'', ''<kml/>'')"
    "find (\<lambda>e. endswith (fst e) ''.kml'') [(''readme.txt'', ''x'')] = None"
    by (simp_all add: endswith_def)
  have l: "snd (last (filter (\<lambda>e. fst e = ''doc.kml'') ?kmz)) = ''<kml/>''"
    by simp
  show ?thesis
    using
      process_kmz_file_first_kml [of "\<lambda>b. Inr ?kmz" "''PK''" ?kmz
        "\<lambda>content name. Inr (JArray [JString content, JString name])" "''upload.kmz''"]
      process_kmz_file_first_kml [of "\<lambda>b. Inr [(''readme.txt'', ''x'')]" "''PK''"
        "[(''readme.txt'', ''x'')]" "\<lambda>content name. Inr (JArray [JString content, JString name])"
        "''upload.kmz''"]
    unfolding f l by simp
qed

text \<open>
  Claim C4 as it was stated fails for an archive with two entries named \<open>a.kml\<close>: the
  first entry whose name ends in \<open>.kml\<close> has the content \<open>X\<close>, and the KML path is
  given the content \<open>Y\<close> of the second.
\<close>

theorem process_kmz_file_first_kml_counterexample:
  "find (\<lambda>e. endswith (fst e) ''.kml'') [(''a.kml'', ''X''), (''a.kml'', ''Y'')]
     = Some (''a.kml'', ''X'') \<and>
   zip_read [(''a.kml'', ''X''), (''a.kml'', ''Y'')] ''a.kml'' = Inr ''Y'' \<and>
   process_kmz_with (\<lambda>content name. Inr (JArray [JString content, JString name]))
       (\<lambda>b. Inr [(''a.kml'', ''X''), (''a.kml'', ''Y'')]) ''PK'' ''upload.kmz''
     = Inr (JArray [JString ''Y'', JString ''a.kml'']) \<and>
   process_kmz_with (\<lambda>content name. Inr (JArray [JString content, JString name]))
       (\<lambda>b. Inr [(''a.kml'', ''X''), (''a.kml'', ''Y'')]) ''PK'' ''upload.kmz''
     \<noteq> Inr (JArray [JString ''X'', JString ''a.kml''])"
  by (simp add: endswith_def zip_read_def process_kmz_with_def namelist_def)

section \<open>Seeding the default layers\<close>

lemma seed_existing: "static_layers st \<noteq> [] \<Longrightarrow> seed_default_layers utcnow st = st"
  by (cases "static_layers st") (simp_all add: seed_default_layers_def)

lemma upt_5: "[0 ..< 5] = [0, 1, 2, 3, 4]"
  by (simp add: upt_rec)

lemma length_default_layers: "length default_layers = 5"
  by (simp add: default_layers_def)

lemma seed_empty:
  assumes "static_layers st = []"
  shows "map (\<lambda>l. (sl_id l, sl_layer_type l, sl_display_order l, sl_geom_data l, sl_is_active l))
           (static_layers (seed_default_layers utcnow st)) =
         [(1, RICE_FIELDS, 1, empty_collection, True),
          (2, IRRIGATION, 2, empty_collection, True),
          (3, REGENCY_ROADS, 3, empty_collection, True),
          (4, REGENCY_BOUNDARIES, 4, empty_collection, True),
          (5, VILLAGE_BOUNDARIES, 5, empty_collection, True)]"
    and "user_layers (seed_default_layers utcnow st) = user_layers st"
    and "complaints (seed_default_layers utcnow st) = complaints st"
    and "complaint_photos (seed_default_layers utcnow st) = complaint_photos st"
    and "files (seed_default_layers utcnow st) = files st"
    and "log (seed_default_layers utcnow st) = log st"
  using assms
  by (simp_all add: seed_default_layers_def length_default_layers upt_5)
     (simp_all add: default_layers_def add_static_layer_def next_id_def)

text \<open>
  Claim C5. \<open>seed_default_layers\<close> changes nothing when a static layer exists. On a
  store without static layers, seeding twice leaves the store that seeding once leaves:
  the five layers rice fields, irrigation, regency roads, regency boundaries and village
  boundaries, with the display orders 1 to 5 and the empty feature collection as geometry.
\<close>

theorem seed_default_layers_idempotent:
  "(static_layers st \<noteq> [] \<longrightarrow> seed_default_layers utcnow st = st) \<and>
   (static_layers st = [] \<longrightarrow>
      seed_default_layers utcnow' (seed_default_layers utcnow st) = seed_default_layers utcnow st \<and>
      map (\<lambda>l. (sl_layer_type l, sl_display_order l, sl_geom_data l))
          (static_layers (seed_default_layers utcnow st)) =
        [(RICE_FIELDS, 1, JObject [(''type'', JString ''FeatureCollection''), (''features'', JArray [])]),
         (IRRIGATION, 2, JObject [(''type'', JString ''FeatureCollection''), (''features'', JArray [])]),
         (REGENCY_ROADS, 3, JObject [(''type'', JString ''FeatureCollection''), (''features'', JArray [])]),
         (REGENCY_BOUNDARIES, 4, JObject [(''type'', JString ''FeatureCollection''), (''features'', JArray [])]),
         (VILLAGE_BOUNDARIES, 5, JObject [(''type'', JString ''FeatureCollection''), (''features'', JArray [])])] \<and>
      user_layers (seed_default_layers utcnow st) = user_layers st)"
proof (intro conjI impI)
  show "seed_default_layers utcnow st = st" if "static_layers st \<noteq> []"
    using that by (rule seed_existing)
next
  assume e: "static_layers st = []"
  have m: "map (\<lambda>l. (sl_id l, sl_layer_type l, sl_display_order l, sl_geom_data l, sl_is_active l))
           (static_layers (seed_default_layers utcnow st)) =
         [(1, RICE_FIELDS, 1, empty_collection, True),
          (2, IRRIGATION, 2, empty_collection, True),
          (3, REGENCY_ROADS, 3, empty_collection, True),
          (4, REGENCY_BOUNDARIES, 4, empty_collection, True),
          (5, VILLAGE_BOUNDARIES, 5, empty_collection, True)]"
    by (rule seed_empty(1) [OF e])
  then have "static_layers (seed_default_layers utcnow st) \<noteq> []" by auto
  then show "seed_default_layers utcnow' (seed_default_layers utcnow st) = seed_default_layers utcnow st"
    by (rule seed_existing)
  have "map (\<lambda>l. (sl_layer_type l, sl_display_order l, sl_geom_data l))
          (static_layers (seed_default_layers utcnow st)) =
        map (\<lambda>(i, t, d, g, a). (t, d, g))
          (map (\<lambda>l. (sl_id l, sl_layer_type l, sl_display_order l, sl_geom_data l, sl_is_active l))
           (static_layers (seed_default_layers utcnow st)))"
    by simp
  then show "map (\<lambda>l. (sl_layer_type l, sl_display_order l, sl_geom_data l))
          (static_layers (seed_default_layers utcnow st)) =
        [(RICE_FIELDS, 1, JObject [(''type'', JString ''FeatureCollection''), (''features'', JArray [])]),
         (IRRIGATION, 2, JObject [(''type'', JString ''FeatureCollection''), (''features'', JArray [])]),
         (REGENCY_ROADS, 3, JObject [(''type'', JString ''FeatureCollection''), (''features'', JArray [])]),
         (REGENCY_BOUNDARIES, 4, JObject [(''type'', JString ''FeatureCollection''), (''features'', JArray [])]),
         (VILLAGE_BOUNDARIES, 5, JObject [(''type'', JString ''FeatureCollection''), (''features'', JArray [])])]"
    unfolding m by (simp add: empty_collection_def)
  show "user_layers (seed_default_layers utcnow st) = user_layers st"
    by (rule seed_empty(2) [OF e])
qed

text \<open>Seeding the empty store twice, at different times.\<close>

theorem seed_default_layers_idempotent_witness:
  "static_layers empty_state = [] \<and>
   length (static_layers (seed_default_layers (\<lambda>k. int k) empty_state)) = 5 \<and>
   seed_default_layers (\<lambda>k. 100 + int k) (seed_default_layers (\<lambda>k. int k) empty_state)
     = seed_default_layers (\<lambda>k. int k) empty_state \<and>
   map sl_display_order (static_layers (seed_default_layers (\<lambda>k. int k) empty_state))
     = [1, 2, 3, 4, 5]"
proof -
  have e: "static_layers empty_state = []" by (simp add: empty_state_def)
  have "map (\<lambda>l. (sl_layer_type l, sl_display_order l, sl_geom_data l))
          (static_layers (seed_default_layers (\<lambda>k. int k) empty_state)) =
        [(RICE_FIELDS, 1, JObject [(''type'', JString ''FeatureCollection''), (''features'', JArray [])]),
         (IRRIGATION, 2, JObject [(''type'', JString ''FeatureCollection''), (''features'', JArray [])]),
         (REGENCY_ROADS, 3, JObject [(''type'', JString ''FeatureCollection''), (''features'', JArray [])]),
         (REGENCY_BOUNDARIES, 4, JObject [(''type'', JString ''FeatureCollection''), (''features'', JArray [])]),
         (VILLAGE_BOUNDARIES, 5, JObject [(''type'', JString ''FeatureCollection''), (''features'', JArray [])])]"
    and i: "seed_default_layers (\<lambda>k. 100 + int k) (seed_default_layers (\<lambda>k. int k) empty_state)
     = seed_default_layers (\<lambda>k. int k) empty_state"
    using seed_default_layers_idempotent [of empty_state "\<lambda>k. int k" "\<lambda>k. 100 + int k"] e
    by simp_all
  then have "map (\<lambda>(t, d, g). d) (map (\<lambda>l. (sl_layer_type l, sl_display_order l, sl_geom_data l))
          (static_layers (seed_default_layers (\<lambda>k. int k) empty_state))) = [1, 2, 3, 4, 5]"
    by simp
  then have d: "map sl_display_order (static_layers (seed_default_layers (\<lambda>k. int k) empty_state))
     = [1, 2, 3, 4, 5]"
    by (simp add: comp_def)
  have l: "length (static_layers (seed_default_layers (\<lambda>k. int k) empty_state)) = 5"
    using arg_cong [OF d, of length] by simp
  show ?thesis using e i d l by simp
qed

section \<open>Listing the active layers\<close>

lemma sorted_desc_sort_key:
  fixes key :: "'a \<Rightarrow> int"
  shows "sorted_wrt (\<lambda>a b. key a \<ge> key b) (sort_key (\<lambda>x. - key x) xs)"
proof -
  have "sorted (map (\<lambda>x. - key x) (sort_key (\<lambda>x. - key x) xs))"
    by (rule sorted_sort_key)
  then show ?thesis by (simp add: sorted_wrt_map)
qed

text \<open>
  Claim C6. The result of \<open>get_all_active_layers\<close> is the views of a list of static
  layers followed by the views of a list of user layers, each view carrying the fields of
  its row (a user layer's type is \<open>user_uploaded\<close>). The first list holds exactly the
  active static layers, in ascending display order; the second holds exactly the user
  layers that are active and public, in descending order of creation. Every returned view
  is active, and there are as many views as there are such rows: no inactive static layer
  and no inactive or private user layer is listed.
\<close>

theorem get_all_active_layers_order:
  "\<exists>static user.
     get_all_active_layers isoformat st =
       map (\<lambda>l. \<lparr>lr_id = sl_id l, lr_name = sl_name l, lr_description = sl_description l,
                  lr_layer_type =
                    (case sl_layer_type l of
                       RICE_FIELDS \<Rightarrow> ''rice_fields''
                     | IRRIGATION \<Rightarrow> ''irrigation''
                     | REGENCY_ROADS \<Rightarrow> ''regency_roads''
                     | REGENCY_BOUNDARIES \<Rightarrow> ''regency_boundaries''
                     | VILLAGE_BOUNDARIES \<Rightarrow> ''village_boundaries''
                     | USER_UPLOADED \<Rightarrow> ''user_uploaded''),
                  lr_is_active = True, lr_geom_data = sl_geom_data l,
                  lr_style_properties = sl_style_properties l,
                  lr_created_at = isoformat (sl_created_at l)\<rparr>) static
       @ map (\<lambda>l. \<lparr>lr_id = ul_id l, lr_name = ul_name l, lr_description = ul_description l,
                    lr_layer_type = ''user_uploaded'', lr_is_active = True,
                    lr_geom_data = ul_geom_data l, lr_style_properties = ul_style_properties l,
                    lr_created_at = isoformat (ul_created_at l)\<rparr>) user \<and>
     mset static = filter_mset sl_is_active (mset (static_layers st)) \<and>
     sorted (map sl_display_order static) \<and>
     mset user = filter_mset (\<lambda>l. ul_is_active l \<and> ul_is_public l) (mset (user_layers st)) \<and>
     sorted_wrt (\<lambda>a b. ul_created_at a \<ge> ul_created_at b) user \<and>
     list_all lr_is_active (get_all_active_layers isoformat st) \<and>
     length (get_all_active_layers isoformat st) =
       length (filter sl_is_active (static_layers st))
       + length (filter (\<lambda>l. ul_is_active l \<and> ul_is_public l) (user_layers st))"
proof -
  let ?static = "select_static_layers st" and ?user = "select_user_layers st"
  have ms: "mset ?static = filter_mset sl_is_active (mset (static_layers st))"
    by (simp add: select_static_layers_def)
  have ss: "sorted (map sl_display_order ?static)"
    by (simp add: select_static_layers_def)
  have mu: "mset ?user
      = filter_mset (\<lambda>l. ul_is_active l \<and> ul_is_public l) (mset (user_layers st))"
    by (simp add: select_user_layers_def)
  have su: "sorted_wrt (\<lambda>a b. ul_created_at a \<ge> ul_created_at b) ?user"
    unfolding select_user_layers_def by (rule sorted_desc_sort_key)
  have as: "\<forall>l \<in> set ?static. sl_is_active l"
    by (simp add: select_static_layers_def)
  have au: "\<forall>l \<in> set ?user. ul_is_active l"
    by (simp add: select_user_layers_def)
  have vs: "static_layer_response isoformat l =
      \<lparr>lr_id = sl_id l, lr_name = sl_name l, lr_description = sl_description l,
                  lr_layer_type =
                    (case sl_layer_type l of
                       RICE_FIELDS \<Rightarrow> ''rice_fields''
                     | IRRIGATION \<Rightarrow> ''irrigation''
                     | REGENCY_ROADS \<Rightarrow> ''regency_roads''
                     | REGENCY_BOUNDARIES \<Rightarrow> ''regency_boundaries''
                     | VILLAGE_BOUNDARIES \<Rightarrow> ''village_boundaries''
                     | USER_UPLOADED \<Rightarrow> ''user_uploaded''),
                  lr_is_active = True, lr_geom_data = sl_geom_data l,
                  lr_style_properties = sl_style_properties l,
                  lr_created_at = isoformat (sl_created_at l)\<rparr>"
    if "sl_is_active l" for l
    using that by (cases "sl_layer_type l") (simp_all add: static_layer_response_def)
  have vu: "user_layer_response isoformat l =
      \<lparr>lr_id = ul_id l, lr_name = ul_name l, lr_description = ul_description l,
                    lr_layer_type = ''user_uploaded'', lr_is_active = True,
                    lr_geom_data = ul_geom_data l, lr_style_properties = ul_style_properties l,
                    lr_created_at = isoformat (ul_created_at l)\<rparr>"
    if "ul_is_active l" for l
    using that by (simp add: user_layer_response_def)
  have eq: "get_all_active_layers isoformat st =
       map (\<lambda>l. \<lparr>lr_id = sl_id l, lr_name = sl_name l, lr_description = sl_description l,
                  lr_layer_type =
                    (case sl_layer_type l of
                       RICE_FIELDS \<Rightarrow> ''rice_fields''
                     | IRRIGATION \<Rightarrow> ''irrigation''
                     | REGENCY_ROADS \<Rightarrow> ''regency_roads''
                     | REGENCY_BOUNDARIES \<Rightarrow> ''regency_boundaries''
                     | VILLAGE_BOUNDARIES \<Rightarrow> ''village_boundaries''
                     | USER_UPLOADED \<Rightarrow> ''user_uploaded''),
                  lr_is_active = True, lr_geom_data = sl_geom_data l,
                  lr_style_properties = sl_style_properties l,
                  lr_created_at = isoformat (sl_created_at l)\<rparr>) ?static
       @ map (\<lambda>l. \<lparr>lr_id = ul_id l, lr_name = ul_name l, lr_description = ul_description l,
                    lr_layer_type = ''user_uploaded'', lr_is_active = True,
                    lr_geom_data = ul_geom_data l, lr_style_properties = ul_style_properties l,
                    lr_created_at = isoformat (ul_created_at l)\<rparr>) ?user"
    unfolding get_all_active_layers_def
    using as au vs vu by (intro arg_cong2 [where f = append] map_cong) auto
  have act: "list_all lr_is_active (get_all_active_layers isoformat st)"
    unfolding eq by (auto simp: list_all_iff)
  have len: "length (get_all_active_layers isoformat st) =
       length (filter sl_is_active (static_layers st))
       + length (filter (\<lambda>l. ul_is_active l \<and> ul_is_public l) (user_layers st))"
    by (simp add: get_all_active_layers_def select_static_layers_def select_user_layers_def)
  show ?thesis
    using eq ms ss mu su act len by blast
qed

text \<open>
  The seeded store with three uploads, one of them private: the five static layers come
  first, then the public uploads, the newer one first.
\<close>

lemma get_all_active_layers_example:
  "map lr_name (get_all_active_layers str_int layer_store)
     = [''Sawah (Rice Fields)'', ''Irigasi (Irrigation)'', ''Jalan Kabupaten (Regency Roads)'',
        ''Batas Kabupaten (Regency Boundaries)'', ''Batas Desa (Village Boundaries)'',
        ''Newer Layer'', ''Public Layer'']"
  by code_simp

section \<open>Complaints in an area\<close>

text \<open>
  Claim C7. For every store and every box, \<open>get_complaints_in_area\<close> returns the
  responses of exactly the complaints with \<open>south \<le> latitude \<le> north\<close> and
  \<open>west \<le> longitude \<le> east\<close>, all four bounds included (each bound taken as the
  decimal the code converts it to), in descending order of creation. Each response
  carries the fields of its complaint and the complaint's photos in display order; the
  coordinates of every returned response lie in the box.
\<close>

theorem get_complaints_in_area_exact:
  "\<exists>rows.
     get_complaints_in_area dec isoformat st south west north east =
       map (\<lambda>c. \<lparr>cr_id = c_id c, cr_title = c_title c, cr_description = c_description c,
                  cr_latitude = c_latitude c, cr_longitude = c_longitude c,
                  cr_location_description = c_location_description c,
                  cr_submitter_name = c_submitter_name c, cr_status = c_status c,
                  cr_created_at = isoformat (c_created_at c),
                  cr_photos =
                    map (\<lambda>p. \<lparr>pr_id = p_id p, pr_filename = p_filename p,
                               pr_file_path = p_file_path p, pr_mime_type = p_mime_type p,
                               pr_caption = p_caption p, pr_display_order = p_display_order p\<rparr>)
                      (sort_key p_display_order
                         (filter (\<lambda>p. p_complaint_id p = c_id c) (complaint_photos st)))\<rparr>)
         rows \<and>
     mset rows =
       filter_mset (\<lambda>c. dec south \<le> c_latitude c \<and> c_latitude c \<le> dec north \<and>
                        dec west \<le> c_longitude c \<and> c_longitude c \<le> dec east)
         (mset (complaints st)) \<and>
     set rows =
       {c \<in> set (complaints st). dec south \<le> c_latitude c \<and> c_latitude c \<le> dec north \<and>
                                  dec west \<le> c_longitude c \<and> c_longitude c \<le> dec east} \<and>
     sorted_wrt (\<lambda>a b. c_created_at a \<ge> c_created_at b) rows \<and>
     list_all (\<lambda>r. dec south \<le> cr_latitude r \<and> cr_latitude r \<le> dec north \<and>
                    dec west \<le> cr_longitude r \<and> cr_longitude r \<le> dec east)
       (get_complaints_in_area dec isoformat st south west north east) \<and>
     map cr_id (get_complaints_in_area dec isoformat st south west north east) = map c_id rows"
proof -
  let ?rows = "select_complaints_in_area (dec south) (dec west) (dec north) (dec east) st"
  have eq: "get_complaints_in_area dec isoformat st south west north east =
       map (\<lambda>c. \<lparr>cr_id = c_id c, cr_title = c_title c, cr_description = c_description c,
                  cr_latitude = c_latitude c, cr_longitude = c_longitude c,
                  cr_location_description = c_location_description c,
                  cr_submitter_name = c_submitter_name c, cr_status = c_status c,
                  cr_created_at = isoformat (c_created_at c),
                  cr_photos =
                    map (\<lambda>p. \<lparr>pr_id = p_id p, pr_filename = p_filename p,
                               pr_file_path = p_file_path p, pr_mime_type = p_mime_type p,
                               pr_caption = p_caption p, pr_display_order = p_display_order p\<rparr>)
                      (sort_key p_display_order
                         (filter (\<lambda>p. p_complaint_id p = c_id c) (complaint_photos st)))\<rparr>)
         ?rows"
    by (simp add: get_complaints_in_area_def complaint_response_def [abs_def] photos_of_def
        photo_response_def [abs_def])
  have m: "mset ?rows =
       filter_mset (\<lambda>c. dec south \<le> c_latitude c \<and> c_latitude c \<le> dec north \<and>
                        dec west \<le> c_longitude c \<and> c_longitude c \<le> dec east)
         (mset (complaints st))"
    by (simp add: select_complaints_in_area_def in_area_def conj_ac cong: filter_mset_cong)
  have s: "set ?rows =
       {c \<in> set (complaints st). dec south \<le> c_latitude c \<and> c_latitude c \<le> dec north \<and>
                                  dec west \<le> c_longitude c \<and> c_longitude c \<le> dec east}"
    by (auto simp: select_complaints_in_area_def in_area_def)
  have o: "sorted_wrt (\<lambda>a b. c_created_at a \<ge> c_created_at b) ?rows"
    unfolding select_complaints_in_area_def by (rule sorted_desc_sort_key)
  have b: "list_all (\<lambda>r. dec south \<le> cr_latitude r \<and> cr_latitude r \<le> dec north \<and>
                    dec west \<le> cr_longitude r \<and> cr_longitude r \<le> dec east)
       (get_complaints_in_area dec isoformat st south west north east)"
    unfolding eq using s by (auto simp: list_all_iff)
  have i: "map cr_id (get_complaints_in_area dec isoformat st south west north east)
      = map c_id ?rows"
    unfolding eq by simp
  show ?thesis using eq m s o b i by blast
qed

text \<open>
  The region of the test suite with a complaint inside, one outside at (-7.0, 117.0) and
  one on the south-east corner of the box.
\<close>

lemma get_complaints_in_area_example:
  "map cr_title (get_complaints_in_area (\<lambda>x. x) str_int area_store (-8.8) 115.9 (-8.3) 116.4)
     = [''Corner complaint'', ''Inside complaint'']"
  by code_simp

section \<open>Storage paths of uploads\<close>

lemma user_layer_path_length:
  "length content1 = length content2 \<Longrightarrow>
   user_layer_path hash filename content1 = user_layer_path hash filename content2"
  by (simp add: user_layer_path_def)

text \<open>
  Claim C9 asks that two uploads with the same filename and different contents get
  different storage paths. The path is built from the filename and the length of the
  content only: whatever the hash function, two uploads named \<open>layer.kml\<close> with the
  one-byte contents \<open>A\<close> and \<open>B\<close> get the same path, and the second upload replaces
  the file of the first.
\<close>

theorem save_user_layer_path_collision:
  "''A'' \<noteq> ''B'' \<and>
   user_layer_path hash ''layer.kml'' ''A'' = user_layer_path hash ''layer.kml'' ''B'' \<and>
   (case save_user_layer hash t1 unzip st ''A'' ''layer.kml'' KML ''first'' '''' True None of
      (layer1, st1) \<Rightarrow>
        (case save_user_layer hash t2 unzip st1 ''B'' ''layer.kml'' KML ''second'' '''' True None of
           (layer2, st2) \<Rightarrow>
             layer1 \<noteq> None \<and> layer2 \<noteq> None \<and>
             map_option ul_file_path layer1 = map_option ul_file_path layer2 \<and>
             files st1 (user_layer_path hash ''layer.kml'' ''A'') = Some ''A'' \<and>
             files st2 (user_layer_path hash ''layer.kml'' ''A'') = Some ''B''))"
  by (simp add: save_user_layer_def process_kml_file_def user_layer_path_def Let_def)

end
